theory Spec2Isabelle
  imports Main "HOL-Library.Char_ord" "HOL-Library.List_Lexorder"
begin

text \<open>
  The module \<^verbatim>\<open>servicenow.go\<close> is a client of the table API of ServiceNow: a constructor, three
  functions that build a request for a table (\<^verbatim>\<open>create\<close>, \<^verbatim>\<open>get\<close>, \<^verbatim>\<open>update\<close>), one that
  executes it (\<^verbatim>\<open>doRequest\<close>), and three operations on incidents that encode, call and decode.
  The functions of the module are translated one by one. Of the packages it calls, the parts
  it relies on are translated from their documented behaviour (the base64 encoder, the
  struct encoder and decoder of \<^verbatim>\<open>encoding/json\<close> for the tags of \<^verbatim>\<open>Incident\<close>, the query
  encoder of \<^verbatim>\<open>net/url\<close>); the network, the parser of URLs and the arithmetic of \<^verbatim>\<open>float64\<close>
  are parameters.
\<close>

section \<open>Strings and formatting\<close>

text \<open>
  A Go \<^verbatim>\<open>string\<close> is a sequence of bytes, which is what \<^typ>\<open>string\<close> is here.
  \<^verbatim>\<open>fmt.Sprintf\<close> is only used with the verbs \<^verbatim>\<open>%s\<close> on strings (the bytes are copied) and
  \<^verbatim>\<open>%v\<close> on an \<^verbatim>\<open>int\<close> (its decimal form), so every format is written as a concatenation.
\<close>

definition digit :: "nat \<Rightarrow> char" where
  "digit d = ''0123456789'' ! d"

fun decimal :: "nat \<Rightarrow> string" where
  "decimal n = (if n < 10 then [digit n] else decimal (n div 10) @ [digit (n mod 10)])"

declare decimal.simps [simp del]

definition itoa :: "int \<Rightarrow> string" where
  "itoa i = (if i < 0 then CHR ''-'' # decimal (nat (- i)) else decimal (nat i))"

section \<open>Base64 (package encoding/base64)\<close>

text \<open>
  \<^verbatim>\<open>Encoding.EncodeToString\<close> of Go, for an encoding with the padding character \<^verbatim>\<open>=\<close>:
  three source bytes give four characters of the alphabet; a last group of one or two bytes is
  padded. \<open>encodeStd\<close> is the alphabet of \<^verbatim>\<open>base64.StdEncoding\<close> (RFC 4648, section 4),
  \<open>encodeURL\<close> the one of \<^verbatim>\<open>base64.URLEncoding\<close> (RFC 4648, section 5): they differ in the
  characters for the values 62 and 63.
\<close>

definition encodeStd :: string where
  "encodeStd = ''ABCDEFGHIJKLMNOPQRSTUVWXYZabcdefghijklmnopqrstuvwxyz0123456789+/''"

definition encodeURL :: string where
  "encodeURL = ''ABCDEFGHIJKLMNOPQRSTUVWXYZabcdefghijklmnopqrstuvwxyz0123456789-_''"

fun EncodeToString :: "string \<Rightarrow> string \<Rightarrow> string" where
  "EncodeToString enc (a # b # c # src) =
     (let val = of_char a * 65536 + of_char b * 256 + of_char c :: nat
      in enc ! (val div 262144 mod 64) # enc ! (val div 4096 mod 64) #
         enc ! (val div 64 mod 64) # enc ! (val mod 64) # EncodeToString enc src)"
| "EncodeToString enc [a, b] =
     (let val = of_char a * 65536 + of_char b * 256 :: nat
      in [enc ! (val div 262144 mod 64), enc ! (val div 4096 mod 64),
          enc ! (val div 64 mod 64), CHR ''='']) "
| "EncodeToString enc [a] =
     (let val = of_char a * 65536 :: nat
      in [enc ! (val div 262144 mod 64), enc ! (val div 4096 mod 64), CHR ''='', CHR ''=''])"
| "EncodeToString enc [] = []"

text \<open>The one alphabet read in terms of the other.\<close>

definition urlSafe :: "char \<Rightarrow> char" where
  "urlSafe c = (if c = CHR ''+'' then CHR ''-'' else if c = CHR ''/'' then CHR ''_'' else c)"

section \<open>Errors\<close>

text \<open>
  The values of type \<^verbatim>\<open>error\<close>: the one the module makes itself with \<^verbatim>\<open>errors.New\<close>, and those
  of the packages it calls, \<^verbatim>\<open>net/url\<close> and \<^verbatim>\<open>net/http\<close> (a URL that does not parse, a failure
  of the transport, a failed read) and \<^verbatim>\<open>encoding/json\<close> (a value that cannot be encoded, a
  \<^verbatim>\<open>json.Number\<close> that is no number, bytes that are not JSON, a value of the wrong type).
\<close>

datatype error =
    errorString string
  | UrlError string
  | UnsupportedTypeError
  | InvalidNumberLiteral string
  | SyntaxError
  | UnmarshalTypeError string string
  | InvalidNumberUnmarshal string
  | TransportError string
  | ReadError string

section \<open>JSON values (package encoding/json)\<close>

text \<open>
  A JSON text is represented by the value it denotes: a number by its literal, a string by the
  bytes it stands for, an object by its members in the order written (a name may occur twice).
  A byte sequence (\<^verbatim>\<open>[]byte\<close>) that the module handles is either such a text or not JSON at
  all; the bytes of a text that is not JSON are kept as they are.
\<close>

datatype json =
    JNull
  | JBool bool
  | JNumber string
  | JString string
  | JArray "json list"
  | JObject "(string \<times> json) list"

datatype bytes = NotJSON string | JSONText json

subsection \<open>Number literals\<close>

definition isDigit :: "char \<Rightarrow> bool" where
  "isDigit c = (CHR ''0'' \<le> c \<and> c \<le> CHR ''9'')"

definition skipInteger :: "string \<Rightarrow> string option" where
  "skipInteger s =
     (case s of
        [] \<Rightarrow> None
      | c # r \<Rightarrow>
          if c = CHR ''0'' then Some r
          else if CHR ''1'' \<le> c \<and> c \<le> CHR ''9'' then Some (dropWhile isDigit r)
          else None)"

definition skipFraction :: "string \<Rightarrow> string" where
  "skipFraction s =
     (if 2 \<le> length s \<and> hd s = CHR ''.'' \<and> isDigit (hd (tl s))
      then dropWhile isDigit (tl (tl s)) else s)"

definition skipExponent :: "string \<Rightarrow> string option" where
  "skipExponent s =
     (if 2 \<le> length s \<and> (hd s = CHR ''e'' \<or> hd s = CHR ''E'') then
        (let s1 = tl s in
         if hd s1 = CHR ''+'' \<or> hd s1 = CHR ''-'' then
           (if tl s1 = [] then None else Some (dropWhile isDigit (tl s1)))
         else Some (dropWhile isDigit s1))
      else Some s)"

text \<open>\<^verbatim>\<open>isValidNumber\<close>: whether a string is a JSON number literal.\<close>

definition isValidNumber :: "string \<Rightarrow> bool" where
  "isValidNumber s =
     (if s = [] then False
      else let s1 = (if hd s = CHR ''-'' then tl s else s) in
        if s1 = [] then False
        else case skipInteger s1 of
               None \<Rightarrow> False
             | Some s2 \<Rightarrow>
                 (case skipExponent (skipFraction s2) of
                    None \<Rightarrow> False
                  | Some s3 \<Rightarrow> s3 = []))"

subsection \<open>Strings on the way out\<close>

text \<open>
  The encoder writes a byte that does not start a well-formed UTF-8 sequence as the escape of
  U+FFFD, so the string a written text denotes has the three bytes of U+FFFD in its place.
  \<open>runeLen\<close> is the width \<^verbatim>\<open>utf8.DecodeRuneInString\<close> reports for a well-formed sequence at
  the head of the string, and 0 for an ill-formed one.
\<close>

definition cont :: "nat \<Rightarrow> nat \<Rightarrow> string \<Rightarrow> nat \<Rightarrow> bool" where
  "cont lo hi s k = (k < length s \<and> lo \<le> of_char (s ! k) \<and> of_char (s ! k) \<le> hi)"

definition runeLen :: "string \<Rightarrow> nat" where
  "runeLen s =
     (case s of
        [] \<Rightarrow> 0
      | c # _ \<Rightarrow>
          (let b = of_char c :: nat in
           if b < 128 then 1
           else if b < 194 then 0
           else if b < 224 then (if cont 128 191 s 1 then 2 else 0)
           else if b < 240 then
             (if cont (if b = 224 then 160 else 128) (if b = 237 then 159 else 191) s 1
                 \<and> cont 128 191 s 2 then 3 else 0)
           else if b < 245 then
             (if cont (if b = 240 then 144 else 128) (if b = 244 then 143 else 191) s 1
                 \<and> cont 128 191 s 2 \<and> cont 128 191 s 3 then 4 else 0)
           else 0))"

definition RuneError :: string where
  "RuneError = [char_of (239 :: nat), char_of (191 :: nat), char_of (189 :: nat)]"

fun toValidUTF8 :: "string \<Rightarrow> string"
  and copyRune :: "nat \<Rightarrow> string \<Rightarrow> string" where
  "toValidUTF8 [] = []"
| "toValidUTF8 (c # s) =
     (case runeLen (c # s) of
        0 \<Rightarrow> RuneError @ toValidUTF8 s
      | Suc n \<Rightarrow> c # copyRune n s)"
| "copyRune 0 s = toValidUTF8 s"
| "copyRune (Suc n) [] = []"
| "copyRune (Suc n) (c # s) = c # copyRune n s"

subsection \<open>Values of type interface\<close>

text \<open>
  \<^verbatim>\<open>LinkedValue\<close> is \<^verbatim>\<open>interface{}\<close>. The module does three things with such a value: the
  encoder asks whether it is nil (for \<^verbatim>\<open>omitempty\<close>) and encodes it, and the decoder replaces
  it. So a value is identified by what the encoder makes of it: \<open>NilValue\<close> is the nil
  interface, \<open>Holds j\<close> a value that is not nil and encodes as \<open>j\<close>, \<open>Unencodable e\<close> a value
  that is not nil and that \<^verbatim>\<open>json.Marshal\<close> refuses with \<open>e\<close> (a channel, a function).
\<close>

datatype LinkedValue = NilValue | Holds json | Unencodable error

text \<open>
  Decoding into an empty interface builds a map, a slice, a \<^verbatim>\<open>float64\<close>, a string or a bool.
  A map keeps the last value of a repeated name and is written with its names sorted. The
  conversion of a literal to a \<^verbatim>\<open>float64\<close> and back is the parameter \<open>fl\<close>: \<open>fl lit\<close> is the
  literal the encoder writes for the \<^verbatim>\<open>float64\<close> nearest to \<open>lit\<close>, and \<open>None\<close> when \<open>lit\<close> is out
  of range (then the decoder records an error and the value is nil).
\<close>

definition mapAssign :: "(string \<times> json) list \<Rightarrow> string \<times> json \<Rightarrow> (string \<times> json) list" where
  "mapAssign m kv = kv # filter (\<lambda>p. fst p \<noteq> fst kv) m"

definition mapEntries :: "(string \<times> json) list \<Rightarrow> (string \<times> json) list" where
  "mapEntries kvs = sort_key fst (foldl mapAssign [] kvs)"

fun valueInterface :: "(string \<Rightarrow> string option) \<Rightarrow> json \<Rightarrow> json \<times> error list" where
  "valueInterface fl JNull = (JNull, [])"
| "valueInterface fl (JBool b) = (JBool b, [])"
| "valueInterface fl (JString s) = (JString s, [])"
| "valueInterface fl (JNumber lit) =
     (case fl lit of
        Some t \<Rightarrow> (JNumber t, [])
      | None \<Rightarrow> (JNull, [UnmarshalTypeError (''number '' @ lit) ''float64'']))"
| "valueInterface fl (JArray xs) =
     (let rs = map (valueInterface fl) xs
      in (JArray (map fst rs), concat (map snd rs)))"
| "valueInterface fl (JObject ms) =
     (let rs = map (\<lambda>p. (fst p, valueInterface fl (snd p))) ms
      in (JObject (mapEntries (map (\<lambda>r. (fst r, fst (snd r))) rs)),
          concat (map (\<lambda>r. snd (snd r)) rs)))"

section \<open>The incident\<close>

text \<open>A \<^verbatim>\<open>json.Number\<close> is a string: the literal as text.\<close>

type_synonym Number = string

record Incident =
  AssignmentGroup :: LinkedValue
  ContactType :: string
  CallerID :: LinkedValue
  Comments :: string
  Description :: string
  GroupKey :: string
  Impact :: Number
  Number :: string
  Priority :: string
  ShortDescription :: string
  State :: Number
  SysID :: string
  Urgency :: Number

text \<open>The zero value of the struct, \<^verbatim>\<open>Incident{}\<close>.\<close>

definition zeroIncident :: Incident where
  "zeroIncident =
     \<lparr> AssignmentGroup = NilValue, ContactType = [], CallerID = NilValue, Comments = [],
       Description = [], GroupKey = [], Impact = [], Number = [], Priority = [],
       ShortDescription = [], State = [], SysID = [], Urgency = [] \<rparr>"

text \<open>
  The struct tags: the fields in the order of declaration, the name of each in JSON, and
  whether it carries \<^verbatim>\<open>omitempty\<close>.
\<close>

datatype field =
    F_AssignmentGroup | F_ContactType | F_CallerID | F_Comments | F_Description | F_GroupKey
  | F_Impact | F_Number | F_Priority | F_ShortDescription | F_State | F_SysID | F_Urgency

fun tag :: "field \<Rightarrow> string" where
  "tag F_AssignmentGroup = ''assignment_group''"
| "tag F_ContactType = ''contact_type''"
| "tag F_CallerID = ''caller_id''"
| "tag F_Comments = ''comments''"
| "tag F_Description = ''description''"
| "tag F_GroupKey = ''u_other_reference_1''"
| "tag F_Impact = ''impact''"
| "tag F_Number = ''number''"
| "tag F_Priority = ''priority''"
| "tag F_ShortDescription = ''short_description''"
| "tag F_State = ''state''"
| "tag F_SysID = ''sys_id''"
| "tag F_Urgency = ''urgency''"

fun omitempty :: "field \<Rightarrow> bool" where
  "omitempty F_AssignmentGroup = False"
| "omitempty F_ContactType = True"
| "omitempty F_CallerID = True"
| "omitempty F_Comments = False"
| "omitempty F_Description = False"
| "omitempty F_GroupKey = False"
| "omitempty F_Impact = True"
| "omitempty F_Number = True"
| "omitempty F_Priority = True"
| "omitempty F_ShortDescription = False"
| "omitempty F_State = True"
| "omitempty F_SysID = True"
| "omitempty F_Urgency = True"

definition incidentFields :: "field list" where
  "incidentFields = [F_AssignmentGroup, F_ContactType, F_CallerID, F_Comments, F_Description,
             F_GroupKey, F_Impact, F_Number, F_Priority, F_ShortDescription, F_State,
             F_SysID, F_Urgency]"

subsection \<open>json.Marshal of an incident\<close>

text \<open>
  Each encoder gives the member's value, \<open>None\<close> for a member left out, or the error that ends
  the encoding. A \<^verbatim>\<open>json.Number\<close> is written as it stands, without quotes, after a check that
  it is a number literal (the empty one counts as \<^verbatim>\<open>0\<close>).
\<close>

definition encodeInterface :: "bool \<Rightarrow> LinkedValue \<Rightarrow> error + json option" where
  "encodeInterface omit v =
     (case v of
        NilValue \<Rightarrow> if omit then Inr None else Inr (Some JNull)
      | Holds j \<Rightarrow> Inr (Some j)
      | Unencodable e \<Rightarrow> Inl e)"

definition encodeString :: "bool \<Rightarrow> string \<Rightarrow> error + json option" where
  "encodeString omit s =
     (if omit \<and> s = [] then Inr None else Inr (Some (JString (toValidUTF8 s))))"

definition encodeNumber :: "bool \<Rightarrow> Number \<Rightarrow> error + json option" where
  "encodeNumber omit n =
     (if omit \<and> n = [] then Inr None
      else let numStr = (if n = [] then ''0'' else n) in
        if isValidNumber numStr then Inr (Some (JNumber numStr))
        else Inl (InvalidNumberLiteral numStr))"

fun encodeField :: "Incident \<Rightarrow> field \<Rightarrow> error + json option" where
  "encodeField i F_AssignmentGroup = encodeInterface (omitempty F_AssignmentGroup) (AssignmentGroup i)"
| "encodeField i F_ContactType = encodeString (omitempty F_ContactType) (ContactType i)"
| "encodeField i F_CallerID = encodeInterface (omitempty F_CallerID) (CallerID i)"
| "encodeField i F_Comments = encodeString (omitempty F_Comments) (Comments i)"
| "encodeField i F_Description = encodeString (omitempty F_Description) (Description i)"
| "encodeField i F_GroupKey = encodeString (omitempty F_GroupKey) (GroupKey i)"
| "encodeField i F_Impact = encodeNumber (omitempty F_Impact) (Impact i)"
| "encodeField i F_Number = encodeString (omitempty F_Number) (Number i)"
| "encodeField i F_Priority = encodeString (omitempty F_Priority) (Priority i)"
| "encodeField i F_ShortDescription = encodeString (omitempty F_ShortDescription) (ShortDescription i)"
| "encodeField i F_State = encodeNumber (omitempty F_State) (State i)"
| "encodeField i F_SysID = encodeString (omitempty F_SysID) (SysID i)"
| "encodeField i F_Urgency = encodeNumber (omitempty F_Urgency) (Urgency i)"

fun encodeStruct :: "Incident \<Rightarrow> field list \<Rightarrow> error + (string \<times> json) list" where
  "encodeStruct i [] = Inr []"
| "encodeStruct i (f # fs) =
     (case encodeField i f of
        Inl e \<Rightarrow> Inl e
      | Inr None \<Rightarrow> encodeStruct i fs
      | Inr (Some j) \<Rightarrow>
          (case encodeStruct i fs of
             Inl e \<Rightarrow> Inl e
           | Inr ms \<Rightarrow> Inr ((tag f, j) # ms)))"

text \<open>\<^verbatim>\<open>json.Marshal(incident)\<close>: the error, or the bytes of the object.\<close>

definition Marshal :: "Incident \<Rightarrow> error + bytes" where
  "Marshal i =
     (case encodeStruct i incidentFields of
        Inl e \<Rightarrow> Inl e
      | Inr ms \<Rightarrow> Inr (JSONText (JObject ms)))"

subsection \<open>json.Unmarshal of a response\<close>

text \<open>
  A member of an object goes to the field whose name it carries, or else to the field whose
  name it carries up to case: the letters of ASCII, and the two other characters that fold to
  one, U+017F to \<^verbatim>\<open>S\<close> and U+212A to \<^verbatim>\<open>K\<close>. A member that names no field is skipped.
\<close>

definition toUpper :: "char \<Rightarrow> char" where
  "toUpper c = (if CHR ''a'' \<le> c \<and> c \<le> CHR ''z'' then char_of (of_char c - (32 :: nat)) else c)"

fun foldName :: "string \<Rightarrow> string" where
  "foldName [] = []"
| "foldName (c # s) =
     (if c = CHR 0xC5 \<and> take 1 s = [CHR 0xBF] then CHR ''S'' # foldName (drop 1 s)
      else if c = CHR 0xE2 \<and> take 2 s = [CHR 0x84, CHR 0xAA] then CHR ''K'' # foldName (drop 2 s)
      else toUpper c # foldName s)"

definition lookupField :: "string \<Rightarrow> field option" where
  "lookupField key =
     (case find (\<lambda>f. tag f = key) incidentFields of
        Some f \<Rightarrow> Some f
      | None \<Rightarrow> find (\<lambda>f. foldName (tag f) = foldName key) incidentFields)"

text \<open>
  What the decoder has done with a value: \<open>Done v es\<close>, it went through, stored \<open>v\<close> and
  recorded the errors \<open>es\<close> on the way (a value of the wrong type is skipped and recorded);
  \<open>Abort v e\<close>, it stopped at the error \<open>e\<close>, having stored \<open>v\<close>.
\<close>

datatype 'a decoded = Done 'a "error list" | Abort 'a error

fun mapDecoded :: "('a \<Rightarrow> 'b) \<Rightarrow> 'a decoded \<Rightarrow> 'b decoded" where
  "mapDecoded g (Done v es) = Done (g v) es"
| "mapDecoded g (Abort v e) = Abort (g v) e"

fun valueName :: "json \<Rightarrow> string" where
  "valueName JNull = ''null''"
| "valueName (JBool b) = ''bool''"
| "valueName (JNumber n) = ''number''"
| "valueName (JString s) = ''string''"
| "valueName (JArray xs) = ''array''"
| "valueName (JObject ms) = ''object''"

definition typeError :: "json \<Rightarrow> string \<Rightarrow> error" where
  "typeError j goType = UnmarshalTypeError (valueName j) goType"

text \<open>
  Into a string, a \<^verbatim>\<open>json.Number\<close> and an interface. \<^verbatim>\<open>null\<close> leaves a string as it is and
  makes an interface nil. A \<^verbatim>\<open>json.Number\<close> takes a number literal as it is written, and a
  string that holds a number literal; any other string stops the decoder (since Go 1.14;
  the encoder refuses such a text in its turn).
\<close>

definition storeString :: "json \<Rightarrow> string \<Rightarrow> string decoded" where
  "storeString j old =
     (case j of
        JNull \<Rightarrow> Done old []
      | JString s \<Rightarrow> Done s []
      | _ \<Rightarrow> Done old [typeError j ''string''])"

definition storeNumber :: "json \<Rightarrow> Number \<Rightarrow> Number decoded" where
  "storeNumber j old =
     (case j of
        JNull \<Rightarrow> Done old []
      | JNumber lit \<Rightarrow> Done lit []
      | JString s \<Rightarrow> if isValidNumber s then Done s [] else Abort old (InvalidNumberUnmarshal s)
      | _ \<Rightarrow> Done old [typeError j ''json.Number''])"

definition storeInterface ::
  "(string \<Rightarrow> string option) \<Rightarrow> json \<Rightarrow> LinkedValue \<Rightarrow> LinkedValue decoded" where
  "storeInterface fl j old =
     (case j of
        JNull \<Rightarrow> Done NilValue []
      | JNumber lit \<Rightarrow>
          (case fl lit of
             Some t \<Rightarrow> Done (Holds (JNumber t)) []
           | None \<Rightarrow> Done old [UnmarshalTypeError (''number '' @ lit) ''float64''])
      | _ \<Rightarrow> (case valueInterface fl j of (g, es) \<Rightarrow> Done (Holds g) es))"

fun storeField ::
  "(string \<Rightarrow> string option) \<Rightarrow> field \<Rightarrow> json \<Rightarrow> Incident \<Rightarrow> Incident decoded" where
  "storeField fl F_AssignmentGroup j i =
     mapDecoded (\<lambda>v. i\<lparr>AssignmentGroup := v\<rparr>) (storeInterface fl j (AssignmentGroup i))"
| "storeField fl F_ContactType j i =
     mapDecoded (\<lambda>v. i\<lparr>ContactType := v\<rparr>) (storeString j (ContactType i))"
| "storeField fl F_CallerID j i =
     mapDecoded (\<lambda>v. i\<lparr>CallerID := v\<rparr>) (storeInterface fl j (CallerID i))"
| "storeField fl F_Comments j i =
     mapDecoded (\<lambda>v. i\<lparr>Comments := v\<rparr>) (storeString j (Comments i))"
| "storeField fl F_Description j i =
     mapDecoded (\<lambda>v. i\<lparr>Description := v\<rparr>) (storeString j (Description i))"
| "storeField fl F_GroupKey j i =
     mapDecoded (\<lambda>v. i\<lparr>GroupKey := v\<rparr>) (storeString j (GroupKey i))"
| "storeField fl F_Impact j i =
     mapDecoded (\<lambda>v. i\<lparr>Impact := v\<rparr>) (storeNumber j (Impact i))"
| "storeField fl F_Number j i =
     mapDecoded (\<lambda>v. i\<lparr>Number := v\<rparr>) (storeString j (Number i))"
| "storeField fl F_Priority j i =
     mapDecoded (\<lambda>v. i\<lparr>Priority := v\<rparr>) (storeString j (Priority i))"
| "storeField fl F_ShortDescription j i =
     mapDecoded (\<lambda>v. i\<lparr>ShortDescription := v\<rparr>) (storeString j (ShortDescription i))"
| "storeField fl F_State j i =
     mapDecoded (\<lambda>v. i\<lparr>State := v\<rparr>) (storeNumber j (State i))"
| "storeField fl F_SysID j i =
     mapDecoded (\<lambda>v. i\<lparr>SysID := v\<rparr>) (storeString j (SysID i))"
| "storeField fl F_Urgency j i =
     mapDecoded (\<lambda>v. i\<lparr>Urgency := v\<rparr>) (storeNumber j (Urgency i))"

text \<open>
  An object into a struct: the members in the order written, each into its field. \<open>store\<close>
  gives \<open>None\<close> for a name that is no field of the struct.
\<close>

fun object ::
  "(string \<Rightarrow> json \<Rightarrow> 'a \<Rightarrow> 'a decoded option) \<Rightarrow> (string \<times> json) list \<Rightarrow> 'a \<Rightarrow> error list \<Rightarrow> 'a decoded" where
  "object store [] v es = Done v es"
| "object store ((key, j) # ms) v es =
     (case store key j v of
        None \<Rightarrow> object store ms v es
      | Some (Abort v' e) \<Rightarrow> Abort v' e
      | Some (Done v' es') \<Rightarrow> object store ms v' (es @ es'))"

definition decodeStruct ::
  "(string \<Rightarrow> json \<Rightarrow> 'a \<Rightarrow> 'a decoded option) \<Rightarrow> string \<Rightarrow> json \<Rightarrow> 'a \<Rightarrow> 'a decoded" where
  "decodeStruct store goType j v =
     (case j of
        JNull \<Rightarrow> Done v []
      | JObject ms \<Rightarrow> object store ms v []
      | _ \<Rightarrow> Done v [typeError j goType])"

definition incidentMember ::
  "(string \<Rightarrow> string option) \<Rightarrow> string \<Rightarrow> json \<Rightarrow> Incident \<Rightarrow> Incident decoded option" where
  "incidentMember fl key j i =
     (case lookupField key of
        None \<Rightarrow> None
      | Some f \<Rightarrow> Some (storeField fl f j i))"

definition decodeIncident ::
  "(string \<Rightarrow> string option) \<Rightarrow> json \<Rightarrow> Incident \<Rightarrow> Incident decoded" where
  "decodeIncident fl = decodeStruct (incidentMember fl) ''main.Incident''"

text \<open>
  An array into a slice of incidents: element \<open>k\<close> is decoded into the element the slice has at
  \<open>k\<close>, or into a zero incident when the slice is shorter. \<^verbatim>\<open>null\<close> makes the slice nil
  (\<open>None\<close>); an empty array makes it empty and not nil.
\<close>

fun arrayElems ::
  "(string \<Rightarrow> string option) \<Rightarrow> json list \<Rightarrow> Incident list \<Rightarrow> Incident list decoded" where
  "arrayElems fl [] olds = Done [] []"
| "arrayElems fl (x # xs) olds =
     (case decodeIncident fl x (case olds of [] \<Rightarrow> zeroIncident | a # _ \<Rightarrow> a) of
        Abort i e \<Rightarrow> Abort (i # tl olds) e
      | Done i es \<Rightarrow>
          (case arrayElems fl xs (tl olds) of
             Abort is e \<Rightarrow> Abort (i # is) e
           | Done is es' \<Rightarrow> Done (i # is) (es @ es')))"

definition decodeIncidents ::
  "(string \<Rightarrow> string option) \<Rightarrow> json \<Rightarrow> Incident list option \<Rightarrow> Incident list option decoded" where
  "decodeIncidents fl j old =
     (case j of
        JNull \<Rightarrow> Done None []
      | JArray xs \<Rightarrow> mapDecoded Some (arrayElems fl xs (case old of None \<Rightarrow> [] | Some l \<Rightarrow> l))
      | _ \<Rightarrow> Done old [typeError j ''[]main.Incident''])"

text \<open>
  The two envelopes, each with the one field \<^verbatim>\<open>Result\<close>, named \<^verbatim>\<open>result\<close> in JSON (the field
  of \<^verbatim>\<open>IncidentsResponse\<close> is \<open>Results\<close> here, two records cannot share a field name).
\<close>

record IncidentsResponse =
  Results :: "Incident list option"

record IncidentResponse =
  Result :: Incident

definition resultMember :: "string \<Rightarrow> bool" where
  "resultMember key = (key = ''result'' \<or> foldName key = foldName ''result'')"

definition incidentResponseMember ::
  "(string \<Rightarrow> string option) \<Rightarrow> string \<Rightarrow> json \<Rightarrow> IncidentResponse \<Rightarrow> IncidentResponse decoded option" where
  "incidentResponseMember fl key j r =
     (if resultMember key
      then Some (mapDecoded (\<lambda>v. r\<lparr>Result := v\<rparr>) (decodeIncident fl j (Result r)))
      else None)"

definition incidentsResponseMember ::
  "(string \<Rightarrow> string option) \<Rightarrow> string \<Rightarrow> json \<Rightarrow> IncidentsResponse \<Rightarrow> IncidentsResponse decoded option" where
  "incidentsResponseMember fl key j r =
     (if resultMember key
      then Some (mapDecoded (\<lambda>v. r\<lparr>Results := v\<rparr>) (decodeIncidents fl j (Results r)))
      else None)"

text \<open>
  \<^verbatim>\<open>json.Unmarshal(data, &v)\<close>: the value \<open>v\<close> holds afterwards, and the error returned. Bytes
  that are not JSON leave \<open>v\<close> alone. Of the errors recorded on the way the first is returned.
\<close>

definition Unmarshal :: "(json \<Rightarrow> 'a \<Rightarrow> 'a decoded) \<Rightarrow> bytes \<Rightarrow> 'a \<Rightarrow> 'a \<times> error option" where
  "Unmarshal decode data v =
     (case data of
        NotJSON _ \<Rightarrow> (v, Some SyntaxError)
      | JSONText j \<Rightarrow>
          (case decode j v of
             Abort v' e \<Rightarrow> (v', Some e)
           | Done v' [] \<Rightarrow> (v', None)
           | Done v' (e # _) \<Rightarrow> (v', Some e)))"

definition UnmarshalIncidentResponse ::
  "(string \<Rightarrow> string option) \<Rightarrow> bytes \<Rightarrow> IncidentResponse \<Rightarrow> IncidentResponse \<times> error option" where
  "UnmarshalIncidentResponse fl =
     Unmarshal (decodeStruct (incidentResponseMember fl) ''main.IncidentResponse'')"

definition UnmarshalIncidentsResponse ::
  "(string \<Rightarrow> string option) \<Rightarrow> bytes \<Rightarrow> IncidentsResponse \<Rightarrow> IncidentsResponse \<times> error option" where
  "UnmarshalIncidentsResponse fl =
     Unmarshal (decodeStruct (incidentsResponseMember fl) ''main.IncidentsResponse'')"

section \<open>Requests and responses (packages net/http and net/url)\<close>

text \<open>
  A request keeps the URL as the string given to \<^verbatim>\<open>http.NewRequest\<close>, and beside it the one
  component the module assigns to, \<^verbatim>\<open>URL.RawQuery\<close>. A response is its status code and what
  reading its body to the end gives: the bytes, or the error of the read.
\<close>

record Request =
  Method :: string
  URL :: string
  RawQuery :: string
  Header :: "(string \<times> string) list"
  Body :: "bytes option"

record Response =
  StatusCode :: int
  ReadAll :: "error + bytes"

text \<open>
  What lies outside the module: whether \<^verbatim>\<open>url.Parse\<close> accepts a URL (\<open>parseError\<close> gives its
  error), what \<^verbatim>\<open>url.ParseQuery\<close> makes of a query that is not empty, what the HTTP client
  answers to a request (\<^verbatim>\<open>http.DefaultClient.Do\<close>: an error of the transport, or a response),
  and the conversion of number literals to \<^verbatim>\<open>float64\<close> of the previous section.
\<close>

type_synonym Values = "(string \<times> string list) list"

record Env =
  parseError :: "string \<Rightarrow> error option"
  ParseQuery :: "string \<Rightarrow> Values"
  Do :: "Request \<Rightarrow> error + Response"
  float64 :: "string \<Rightarrow> string option"

text \<open>
  What an operation does to the outside, in order: it hands a request to the client, reads the
  body of the response, closes the body.
\<close>

datatype event = Sent Request | BodyRead | BodyClosed

text \<open>
  \<^verbatim>\<open>url.Parse\<close> cuts the fragment off at the first \<^verbatim>\<open>#\<close> and the query at the first \<^verbatim>\<open>?\<close>
  before it.
\<close>

definition rawQueryOf :: "string \<Rightarrow> string" where
  "rawQueryOf url =
     (case dropWhile (\<lambda>c. c \<noteq> CHR ''?'') (takeWhile (\<lambda>c. c \<noteq> CHR ''#'') url) of
        [] \<Rightarrow> []
      | _ # q \<Rightarrow> q)"

definition NewRequest :: "Env \<Rightarrow> string \<Rightarrow> string \<Rightarrow> bytes option \<Rightarrow> error + Request" where
  "NewRequest env method url body =
     (case parseError env url of
        Some err \<Rightarrow> Inl err
      | None \<Rightarrow>
          Inr \<lparr> Method = method, URL = url, RawQuery = rawQueryOf url, Header = [], Body = body \<rparr>)"

text \<open>\<^verbatim>\<open>Header.Set\<close>: the value replaces the one the key has.\<close>

definition Header_Set :: "(string \<times> string) list \<Rightarrow> string \<Rightarrow> string \<Rightarrow> (string \<times> string) list" where
  "Header_Set h key val = filter (\<lambda>p. fst p \<noteq> key) h @ [(key, val)]"

subsection \<open>Query values\<close>

text \<open>
  \<^verbatim>\<open>url.Values\<close> maps a key to the list of its values. \<^verbatim>\<open>Add\<close> appends a value to the list of
  a key. \<^verbatim>\<open>Encode\<close> writes \<^verbatim>\<open>key=value\<close> for every value of every key, the keys sorted, with
  \<^verbatim>\<open>&\<close> between, key and value escaped by \<^verbatim>\<open>QueryEscape\<close>: a letter, a digit and \<^verbatim>\<open>-_.~\<close>
  stay, a space becomes \<^verbatim>\<open>+\<close>, any other byte \<^verbatim>\<open>%XX\<close>.
\<close>

definition Query :: "Env \<Rightarrow> Request \<Rightarrow> Values" where
  "Query env req = (if RawQuery req = [] then [] else ParseQuery env (RawQuery req))"

definition Values_Add :: "Values \<Rightarrow> string \<Rightarrow> string \<Rightarrow> Values" where
  "Values_Add v key val =
     (case map_of v key of
        None \<Rightarrow> v @ [(key, [val])]
      | Some vs \<Rightarrow> map (\<lambda>p. if fst p = key then (fst p, snd p @ [val]) else p) v)"

definition unreserved :: "char \<Rightarrow> bool" where
  "unreserved c =
     ((CHR ''a'' \<le> c \<and> c \<le> CHR ''z'') \<or> (CHR ''A'' \<le> c \<and> c \<le> CHR ''Z'') \<or>
      (CHR ''0'' \<le> c \<and> c \<le> CHR ''9'') \<or> c \<in> set ''-_.~'')"

definition upperhex :: "nat \<Rightarrow> char" where
  "upperhex n = ''0123456789ABCDEF'' ! n"

definition escapeByte :: "char \<Rightarrow> string" where
  "escapeByte c =
     (if unreserved c then [c]
      else if c = CHR '' '' then ''+''
      else [CHR ''%'', upperhex (of_char c div 16), upperhex (of_char c mod 16)])"

definition QueryEscape :: "string \<Rightarrow> string" where
  "QueryEscape s = concat (map escapeByte s)"

fun join :: "string \<Rightarrow> string list \<Rightarrow> string" where
  "join sep [] = []"
| "join sep [x] = x"
| "join sep (x # y # xs) = x @ sep @ join sep (y # xs)"

definition pair :: "string \<Rightarrow> string \<Rightarrow> string" where
  "pair key val = QueryEscape key @ ''='' @ QueryEscape val"

definition Values_Encode :: "Values \<Rightarrow> string" where
  "Values_Encode v =
     join ''&'' (concat (map (\<lambda>k. map (pair k) (case map_of v k of None \<Rightarrow> [] | Some vs \<Rightarrow> vs))
                             (sort (map fst v))))"

section \<open>The client\<close>

record ServiceNowClient =
  baseURL :: string
  authHeader :: string

definition serviceNowBaseURL :: "string \<Rightarrow> string" where
  "serviceNowBaseURL instanceName = ''https://'' @ instanceName @ ''.service-now.com''"

definition NewServiceNowClient ::
  "string \<Rightarrow> string \<Rightarrow> string \<Rightarrow> ServiceNowClient option \<times> error option" where
  "NewServiceNowClient instanceName userName password =
     (if instanceName = [] then (None, Some (errorString ''Missing instanceName''))
      else if userName = [] then (None, Some (errorString ''Missing userName''))
      else if password = [] then (None, Some (errorString ''Missing password''))
      else (Some \<lparr> baseURL = serviceNowBaseURL instanceName,
                    authHeader = ''Basic '' @ EncodeToString encodeURL (userName @ '':'' @ password) \<rparr>,
            None))"


subsection \<open>The table operations\<close>

definition tableAPI :: "string \<Rightarrow> string \<Rightarrow> string" where
  "tableAPI base table = base @ ''/api/now/v2/table/'' @ table"

text \<open>The header of a request after \<open>doRequest\<close> has set its two fields on an empty one.\<close>

definition requestHeader :: "ServiceNowClient \<Rightarrow> (string \<times> string) list" where
  "requestHeader snClient =
     [(''Content-Type'', ''application/json''), (''Authorization'', authHeader snClient)]"

text \<open>
  The functions of the module return a pair, the value and the error, as they do in Go:
  \<open>None\<close> is nil. With the pair comes the list of what the call did to the outside. The
  calls to the logger are left out: they return nothing, and the module reads nothing back
  from them. In \<open>doRequest\<close> the deferred \<^verbatim>\<open>Close\<close> is registered after the check of the status
  code, so it runs on the two returns below it and on none above.
\<close>

definition errorMsg :: "int \<Rightarrow> string" where
  "errorMsg code = ''ServiceNow returned the HTTP error code: '' @ itoa code"

definition doRequest ::
  "Env \<Rightarrow> ServiceNowClient \<Rightarrow> Request \<Rightarrow> (bytes option \<times> error option) \<times> event list" where
  "doRequest env snClient req0 =
     (let req = req0\<lparr>Header :=
                  Header_Set (Header_Set (Header req0) ''Content-Type'' ''application/json'')
                    ''Authorization'' (authHeader snClient)\<rparr>
      in case Do env req of
           Inl err \<Rightarrow> ((None, Some err), [Sent req])
         | Inr resp \<Rightarrow>
             if 400 \<le> StatusCode resp then
               ((None, Some (errorString (errorMsg (StatusCode resp)))), [Sent req])
             else
               (case ReadAll resp of
                  Inl err \<Rightarrow> ((None, Some err), [Sent req, BodyRead, BodyClosed])
                | Inr responseBody \<Rightarrow>
                    ((Some responseBody, None), [Sent req, BodyRead, BodyClosed])))"

definition create ::
  "Env \<Rightarrow> ServiceNowClient \<Rightarrow> string \<Rightarrow> bytes \<Rightarrow> (bytes option \<times> error option) \<times> event list" where
  "create env snClient table body =
     (let url = tableAPI (baseURL snClient) table
      in case NewRequest env ''POST'' url (Some body) of
           Inl err \<Rightarrow> ((None, Some err), [])
         | Inr req \<Rightarrow> doRequest env snClient req)"

text \<open>
  The parameters are a Go map: \<open>params\<close> lists its entries in the order in which the loop
  meets them, which Go leaves open; no key occurs twice in it.
\<close>

definition get ::
  "Env \<Rightarrow> ServiceNowClient \<Rightarrow> string \<Rightarrow> (string \<times> string) list \<Rightarrow>
     (bytes option \<times> error option) \<times> event list" where
  "get env snClient table params =
     (let url = tableAPI (baseURL snClient) table
      in case NewRequest env ''GET'' url None of
           Inl err \<Rightarrow> ((None, Some err), [])
         | Inr req \<Rightarrow>
             (let q = foldl (\<lambda>q (key, val). Values_Add q key val) (Query env req) params
              in doRequest env snClient (req\<lparr>RawQuery := Values_Encode q\<rparr>)))"

definition update ::
  "Env \<Rightarrow> ServiceNowClient \<Rightarrow> string \<Rightarrow> bytes \<Rightarrow> string \<Rightarrow>
     (bytes option \<times> error option) \<times> event list" where
  "update env snClient table body sysID =
     (let url = tableAPI (baseURL snClient) table @ ''/'' @ sysID
      in case NewRequest env ''PUT'' url (Some body) of
           Inl err \<Rightarrow> ((None, Some err), [])
         | Inr req \<Rightarrow> doRequest env snClient req)"

subsection \<open>The operations on incidents\<close>

text \<open>A nil slice of bytes is an empty one to \<^verbatim>\<open>json.Unmarshal\<close>: not JSON.\<close>

definition bytesOf :: "bytes option \<Rightarrow> bytes" where
  "bytesOf b = (case b of None \<Rightarrow> NotJSON [] | Some data \<Rightarrow> data)"

definition CreateIncident ::
  "Env \<Rightarrow> ServiceNowClient \<Rightarrow> Incident \<Rightarrow> (Incident option \<times> error option) \<times> event list" where
  "CreateIncident env snClient incident =
     (case Marshal incident of
        Inl err \<Rightarrow> ((None, Some err), [])
      | Inr postBody \<Rightarrow>
          (case create env snClient ''incident'' postBody of
             ((response, Some err), tr) \<Rightarrow> ((None, Some err), tr)
           | ((response, None), tr) \<Rightarrow>
               (case UnmarshalIncidentResponse (float64 env) (bytesOf response)
                       \<lparr>Result = zeroIncident\<rparr> of
                  (incidentResponse, Some err) \<Rightarrow> ((None, Some err), tr)
                | (incidentResponse, None) \<Rightarrow> ((Some (Result incidentResponse), None), tr))))"

definition GetIncidents ::
  "Env \<Rightarrow> ServiceNowClient \<Rightarrow> (string \<times> string) list \<Rightarrow>
     (Incident list option \<times> error option) \<times> event list" where
  "GetIncidents env snClient params =
     (case get env snClient ''incident'' params of
        ((response, Some err), tr) \<Rightarrow> ((None, Some err), tr)
      | ((response, None), tr) \<Rightarrow>
          (case UnmarshalIncidentsResponse (float64 env) (bytesOf response)
                  \<lparr>Results = None\<rparr> of
             (incidentsResponse, Some err) \<Rightarrow> ((None, Some err), tr)
           | (incidentsResponse, None) \<Rightarrow> ((Results incidentsResponse, None), tr)))"

definition UpdateIncident ::
  "Env \<Rightarrow> ServiceNowClient \<Rightarrow> Incident \<Rightarrow> (Incident option \<times> error option) \<times> event list" where
  "UpdateIncident env snClient incident =
     (case Marshal incident of
        Inl err \<Rightarrow> ((None, Some err), [])
      | Inr postBody \<Rightarrow>
          (case update env snClient ''incident'' postBody (SysID incident) of
             ((response, Some err), tr) \<Rightarrow> ((None, Some err), tr)
           | ((response, None), tr) \<Rightarrow>
               (case UnmarshalIncidentResponse (float64 env) (bytesOf response)
                       \<lparr>Result = zeroIncident\<rparr> of
                  (incidentResponse, Some err) \<Rightarrow> ((None, Some err), tr)
                | (incidentResponse, None) \<Rightarrow> ((Some (Result incidentResponse), None), tr))))"

section \<open>Test doubles and readers\<close>

text \<open>
  A mock server answers every request with the same status code and body; it accepts every
  URL, and the literals in the examples below are never converted to \<^verbatim>\<open>float64\<close>. The client
  \<open>acme\<close> is the one \<^verbatim>\<open>NewServiceNowClient("acme", "bob", "secret")\<close> builds.
\<close>

definition mockServer :: "int \<Rightarrow> error + bytes \<Rightarrow> Env" where
  "mockServer code body =
     \<lparr> parseError = (\<lambda>url. None), ParseQuery = (\<lambda>query. []),
       Do = (\<lambda>req. Inr \<lparr>StatusCode = code, ReadAll = body\<rparr>), float64 = Some \<rparr>"

definition acme :: ServiceNowClient where
  "acme = \<lparr> baseURL = ''https://acme.service-now.com'',
            authHeader = ''Basic Ym9iOnNlY3JldA=='' \<rparr>"

text \<open>
  The request \<open>CreateIncident\<close> executes for the zero incident with the client \<open>acme\<close>, and
  a request as \<open>create\<close> hands it to \<open>doRequest\<close>, before the headers are set.
\<close>

definition zeroMembers :: "(string \<times> json) list" where
  "zeroMembers =
     [(''assignment_group'', JNull), (''comments'', JString []), (''description'', JString []),
      (''u_other_reference_1'', JString []), (''short_description'', JString [])]"

definition zeroBody :: bytes where
  "zeroBody = JSONText (JObject zeroMembers)"

definition bareRequest :: "string \<Rightarrow> string \<Rightarrow> bytes option \<Rightarrow> Request" where
  "bareRequest method url body =
     \<lparr> Method = method, URL = url, RawQuery = [], Header = [], Body = body \<rparr>"

definition acmeRequest :: "string \<Rightarrow> string \<Rightarrow> string \<Rightarrow> bytes option \<Rightarrow> Request" where
  "acmeRequest method url query body =
     \<lparr> Method = method, URL = url, RawQuery = query,
       Header = [(''Content-Type'', ''application/json''),
                 (''Authorization'', ''Basic Ym9iOnNlY3JldA=='')],
       Body = body \<rparr>"

text \<open>The body of a server that has created the incident \<^verbatim>\<open>INC0001\<close>.\<close>

definition createdBody :: "error + bytes" where
  "createdBody =
     Inr (JSONText (JObject [(''result'',
       JObject [(''number'', JString ''INC0001''), (''sys_id'', JString ''abc123'')])]))"

text \<open>What \<^verbatim>\<open>json.Marshal\<close> writes for the zero incident with a \<^verbatim>\<open>SysID\<close>.\<close>

definition sysIDBody :: "string \<Rightarrow> bytes" where
  "sysIDBody sysID =
     JSONText (JObject [(''assignment_group'', JNull), (''comments'', JString []),
       (''description'', JString []), (''u_other_reference_1'', JString []),
       (''short_description'', JString []), (''sys_id'', JString sysID)])"

definition serverError :: "error + bytes" where
  "serverError = Inr (NotJSON ''Internal Server Error'')"

text \<open>Reading a decimal numeral back, to say that a message carries a number.\<close>

definition digitValue :: "char \<Rightarrow> nat" where
  "digitValue c = of_char c - 48"

definition readDecimal :: "string \<Rightarrow> nat" where
  "readDecimal s = foldl (\<lambda>a c. 10 * a + digitValue c) 0 s"

subsection \<open>Reading a query back\<close>

text \<open>
  What \<^verbatim>\<open>url.ParseQuery\<close> finds in a query: the pieces between \<^verbatim>\<open>&\<close> that are not empty, each
  cut at its first \<^verbatim>\<open>=\<close> into a key and a value, which are unescaped (\<^verbatim>\<open>+\<close> is a space,
  \<^verbatim>\<open>%XX\<close> a byte). \<open>singles\<close> are the values after each parameter of a map was added to none.
\<close>

fun splitAmp :: "string \<Rightarrow> string list" where
  "splitAmp [] = [[]]"
| "splitAmp (c # s) =
     (if c = CHR ''&'' then [] # splitAmp s
      else (case splitAmp s of [] \<Rightarrow> [[c]] | x # xs \<Rightarrow> (c # x) # xs))"

definition queryPairs :: "string \<Rightarrow> string list" where
  "queryPairs query = filter (\<lambda>p. p \<noteq> []) (splitAmp query)"

definition unhex :: "char \<Rightarrow> nat option" where
  "unhex c =
     (if CHR ''0'' \<le> c \<and> c \<le> CHR ''9'' then Some (of_char c - 48)
      else if CHR ''a'' \<le> c \<and> c \<le> CHR ''f'' then Some (of_char c - 87)
      else if CHR ''A'' \<le> c \<and> c \<le> CHR ''F'' then Some (of_char c - 55)
      else None)"

fun QueryUnescape :: "string \<Rightarrow> string option" where
  "QueryUnescape [] = Some []"
| "QueryUnescape (c # s) =
     (if c = CHR ''%'' then
        (case s of
           a # b # r \<Rightarrow>
             (case (unhex a, unhex b) of
                (Some x, Some y) \<Rightarrow> map_option ((#) (char_of (16 * x + y))) (QueryUnescape r)
              | _ \<Rightarrow> None)
         | _ \<Rightarrow> None)
      else if c = CHR ''+'' then map_option ((#) CHR '' '') (QueryUnescape s)
      else map_option ((#) c) (QueryUnescape s))"

definition parsePair :: "string \<Rightarrow> (string \<times> string) option" where
  "parsePair p =
     (case (QueryUnescape (takeWhile (\<lambda>c. c \<noteq> CHR ''='') p),
            QueryUnescape (case dropWhile (\<lambda>c. c \<noteq> CHR ''='') p of [] \<Rightarrow> [] | _ # v \<Rightarrow> v)) of
        (Some key, Some val) \<Rightarrow> Some (key, val)
      | _ \<Rightarrow> None)"


definition singles :: "(string \<times> string) list \<Rightarrow> Values" where
  "singles ps = map (\<lambda>p. (fst p, [snd p])) ps"

section \<open>Shapes of incidents and of responses\<close>





text \<open>
  A response without a result: \<^verbatim>\<open>null\<close>, or an object in which every member named
  \<^verbatim>\<open>result\<close> is \<^verbatim>\<open>null\<close> (so also one with no such member). A response with a blank result:
  every member named \<^verbatim>\<open>result\<close> is \<^verbatim>\<open>null\<close> or an object none of whose members names a field
  of an incident. A scalar is a bool, a number or a string.
\<close>

definition noResult :: "json \<Rightarrow> bool" where
  "noResult j =
     (case j of
        JNull \<Rightarrow> True
      | JObject ms \<Rightarrow> (\<forall>m \<in> set ms. resultMember (fst m) \<longrightarrow> snd m = JNull)
      | _ \<Rightarrow> False)"

definition namesNoField :: "json \<Rightarrow> bool" where
  "namesNoField j =
     (case j of
        JNull \<Rightarrow> True
      | JObject ms \<Rightarrow> (\<forall>m \<in> set ms. lookupField (fst m) = None)
      | _ \<Rightarrow> False)"

definition blankResult :: "json \<Rightarrow> bool" where
  "blankResult j =
     (case j of
        JNull \<Rightarrow> True
      | JObject ms \<Rightarrow> (\<forall>m \<in> set ms. resultMember (fst m) \<longrightarrow> namesNoField (snd m))
      | _ \<Rightarrow> False)"

definition scalar :: "json \<Rightarrow> bool" where
  "scalar v = (case v of JBool b \<Rightarrow> True | JNumber n \<Rightarrow> True | JString s \<Rightarrow> True | _ \<Rightarrow> False)"


definition numberResult :: "error + bytes" where
  "numberResult = Inr (JSONText (JObject [(''result'', JNumber ''5'')]))"

definition emptyList :: "error + bytes" where
  "emptyList = Inr (JSONText (JObject [(''result'', JArray [])]))"

definition emptyObject :: "error + bytes" where
  "emptyObject = Inr (JSONText (JObject []))"

section \<open>The constructor\<close>

lemma NewServiceNowClient_error_iff:
  "snd (NewServiceNowClient i u p) \<noteq> None \<longleftrightarrow> i = [] \<or> u = [] \<or> p = []"
  by (simp add: NewServiceNowClient_def)

lemma NewServiceNowClient_nil_iff:
  "fst (NewServiceNowClient i u p) = None \<longleftrightarrow> i = [] \<or> u = [] \<or> p = []"
  by (simp add: NewServiceNowClient_def)

lemma NewServiceNowClient_ok:
  "i \<noteq> [] \<Longrightarrow> u \<noteq> [] \<Longrightarrow> p \<noteq> [] \<Longrightarrow>
   NewServiceNowClient i u p =
     (Some \<lparr> baseURL = ''https://'' @ i @ ''.service-now.com'',
             authHeader = ''Basic '' @ EncodeToString encodeURL (u @ '':'' @ p) \<rparr>, None)"
  by (simp add: NewServiceNowClient_def serviceNowBaseURL_def)

lemma NewServiceNowClient_acme:
  "NewServiceNowClient ''acme'' ''bob'' ''secret'' = (Some acme, None)"
  by (simp add: NewServiceNowClient_def serviceNowBaseURL_def encodeURL_def acme_def)

lemma encodeURL_urlSafe: "encodeURL = map urlSafe encodeStd"
  by (simp add: encodeURL_def encodeStd_def urlSafe_def)

lemma length_encodeStd: "length encodeStd = 64"
  by (simp add: encodeStd_def)

lemma encodeURL_nth: "i < 64 \<Longrightarrow> encodeURL ! i = urlSafe (encodeStd ! i)"
  by (simp add: encodeURL_urlSafe length_encodeStd)

lemma urlSafe_pad: "urlSafe CHR ''='' = CHR ''=''"
  by (simp add: urlSafe_def)

lemma EncodeToString_urlSafe:
  "EncodeToString encodeURL s = map urlSafe (EncodeToString encodeStd s)"
proof (induction "encodeStd" s rule: EncodeToString.induct)
  case (1 a b c src)
  then show ?case by (simp add: Let_def encodeURL_nth)
next
  case (2 a b)
  then show ?case by (simp add: Let_def encodeURL_nth urlSafe_pad)
next
  case (3 a)
  then show ?case by (simp add: Let_def encodeURL_nth urlSafe_pad)
next
  case 4
  then show ?case by simp
qed

lemma EncodeToString_same:
  assumes "CHR ''+'' \<notin> set (EncodeToString encodeStd s)"
    and "CHR ''/'' \<notin> set (EncodeToString encodeStd s)"
  shows "EncodeToString encodeURL s = EncodeToString encodeStd s"
proof -
  have "map urlSafe (EncodeToString encodeStd s) = map (\<lambda>c. c) (EncodeToString encodeStd s)"
    using assms by (intro map_cong) (auto simp: urlSafe_def)
  then show ?thesis by (simp add: EncodeToString_urlSafe)
qed

text \<open>
  C1. The constructor fails exactly on an empty argument and the base address is as claimed
  (\<open>NewServiceNowClient_error_iff\<close>, \<open>NewServiceNowClient_ok\<close>). The source encodes
  \<^verbatim>\<open>userName:password\<close> with \<^verbatim>\<open>base64.URLEncoding\<close>, so the header is \<^verbatim>\<open>Basic\<close> and the
  base64 of \<^verbatim>\<open>userName:password\<close> with \<^verbatim>\<open>-\<close> for every \<^verbatim>\<open>+\<close> and \<^verbatim>\<open>_\<close> for every \<^verbatim>\<open>/\<close>
  (\<open>EncodeToString_urlSafe\<close>): the claimed one when the base64 has neither, and another one
  otherwise. For the user \<^verbatim>\<open>bob\<close> with the password \<^verbatim>\<open>secret??\<close> the constructor succeeds
  with the header \<^verbatim>\<open>Basic Ym9iOnNlY3JldD8_\<close>, while the base64 of \<^verbatim>\<open>bob:secret??\<close> is
  \<^verbatim>\<open>Ym9iOnNlY3JldD8/\<close>.
\<close>

theorem NewServiceNowClient_header_is_not_base64:
  "NewServiceNowClient ''acme'' ''bob'' ''secret??'' =
     (Some \<lparr> baseURL = ''https://acme.service-now.com'',
             authHeader = ''Basic Ym9iOnNlY3JldD8_'' \<rparr>, None)
   \<and> ''Basic '' @ EncodeToString encodeStd (''bob'' @ '':'' @ ''secret??'') =
       ''Basic Ym9iOnNlY3JldD8/''"
  by (simp add: NewServiceNowClient_def serviceNowBaseURL_def encodeURL_def encodeStd_def)

section \<open>Executing a request\<close>

lemma digitValue_digit: "d < 10 \<Longrightarrow> digitValue (digit d) = d"
proof -
  assume "d < 10"
  then have "d \<in> {0, 1, 2, 3, 4, 5, 6, 7, 8, 9}" by auto
  then show ?thesis by (auto simp: digit_def digitValue_def)
qed

lemma readDecimal_decimal: "readDecimal (decimal n) = n"
proof (induction n rule: decimal.induct)
  case (1 n)
  show ?case
  proof (cases "n < 10")
    case True
    then show ?thesis by (simp add: decimal.simps[of n] readDecimal_def digitValue_digit)
  next
    case False
    then have "readDecimal (decimal (n div 10)) = n div 10" using 1 by simp
    then show ?thesis using False
      by (simp add: decimal.simps[of n] readDecimal_def digitValue_digit)
  qed
qed

lemma errorMsg_carries_code:
  "0 \<le> code \<Longrightarrow>
   \<exists>ds. errorMsg code = ''ServiceNow returned the HTTP error code: '' @ ds \<and>
        int (readDecimal ds) = code"
  by (simp add: errorMsg_def itoa_def readDecimal_decimal)

lemma doRequest_sent:
  "Sent rq \<in> set (snd (doRequest env cl req)) \<Longrightarrow>
   rq = req\<lparr>Header := Header_Set (Header_Set (Header req) ''Content-Type'' ''application/json'')
                    ''Authorization'' (authHeader cl)\<rparr>"
  by (auto simp: doRequest_def Let_def split: sum.splits if_splits)

lemma doRequest_from_400:
  assumes "Do env rq = Inr resp" "400 \<le> StatusCode resp"
    and "Sent rq \<in> set (snd (doRequest env cl req))"
  shows "doRequest env cl req = ((None, Some (errorString (errorMsg (StatusCode resp)))), [Sent rq])"
  using assms doRequest_sent[OF assms(3)]
  by (simp add: doRequest_def Let_def)

lemma create_from_400:
  assumes "Do env rq = Inr resp" "400 \<le> StatusCode resp"
    and "Sent rq \<in> set (snd (create env cl t b))"
  shows "create env cl t b = ((None, Some (errorString (errorMsg (StatusCode resp)))), [Sent rq])"
  using assms
  by (auto simp: create_def Let_def split: sum.splits dest: doRequest_from_400)

lemma update_from_400:
  assumes "Do env rq = Inr resp" "400 \<le> StatusCode resp"
    and "Sent rq \<in> set (snd (update env cl t b s))"
  shows "update env cl t b s = ((None, Some (errorString (errorMsg (StatusCode resp)))), [Sent rq])"
  using assms
  by (auto simp: update_def Let_def split: sum.splits dest: doRequest_from_400)

lemma get_from_400:
  assumes "Do env rq = Inr resp" "400 \<le> StatusCode resp"
    and "Sent rq \<in> set (snd (get env cl t ps))"
  shows "get env cl t ps = ((None, Some (errorString (errorMsg (StatusCode resp)))), [Sent rq])"
  using assms
  by (auto simp: get_def Let_def split: sum.splits dest: doRequest_from_400)

lemma CreateIncident_trace:
  "snd (CreateIncident env cl inc) =
     (case Marshal inc of Inl e \<Rightarrow> [] | Inr b \<Rightarrow> snd (create env cl ''incident'' b))"
  by (auto simp: CreateIncident_def split: sum.splits prod.splits option.splits)

lemma UpdateIncident_trace:
  "snd (UpdateIncident env cl inc) =
     (case Marshal inc of Inl e \<Rightarrow> [] | Inr b \<Rightarrow> snd (update env cl ''incident'' b (SysID inc)))"
  by (auto simp: UpdateIncident_def split: sum.splits prod.splits option.splits)

lemma GetIncidents_trace:
  "snd (GetIncidents env cl ps) = snd (get env cl ''incident'' ps)"
  by (auto simp: GetIncidents_def split: sum.splits prod.splits option.splits)

lemma CreateIncident_from_400:
  assumes "Do env rq = Inr resp" "400 \<le> StatusCode resp"
    and "Sent rq \<in> set (snd (CreateIncident env cl inc))"
  shows "CreateIncident env cl inc =
           ((None, Some (errorString (errorMsg (StatusCode resp)))), [Sent rq])"
proof (cases "Marshal inc")
  case (Inl e)
  then show ?thesis using assms(3) by (simp add: CreateIncident_trace)
next
  case (Inr b)
  then have "Sent rq \<in> set (snd (create env cl ''incident'' b))"
    using assms(3) by (simp add: CreateIncident_trace)
  from create_from_400[OF assms(1,2) this] Inr show ?thesis
    by (simp add: CreateIncident_def)
qed

lemma UpdateIncident_from_400:
  assumes "Do env rq = Inr resp" "400 \<le> StatusCode resp"
    and "Sent rq \<in> set (snd (UpdateIncident env cl inc))"
  shows "UpdateIncident env cl inc =
           ((None, Some (errorString (errorMsg (StatusCode resp)))), [Sent rq])"
proof (cases "Marshal inc")
  case (Inl e)
  then show ?thesis using assms(3) by (simp add: UpdateIncident_trace)
next
  case (Inr b)
  then have "Sent rq \<in> set (snd (update env cl ''incident'' b (SysID inc)))"
    using assms(3) by (simp add: UpdateIncident_trace)
  from update_from_400[OF assms(1,2) this] Inr show ?thesis
    by (simp add: UpdateIncident_def)
qed

lemma GetIncidents_from_400:
  assumes "Do env rq = Inr resp" "400 \<le> StatusCode resp"
    and "Sent rq \<in> set (snd (GetIncidents env cl ps))"
  shows "GetIncidents env cl ps =
           ((None, Some (errorString (errorMsg (StatusCode resp)))), [Sent rq])"
proof -
  have "Sent rq \<in> set (snd (get env cl ''incident'' ps))"
    using assms(3) by (simp add: GetIncidents_trace)
  from get_from_400[OF assms(1,2) this] show ?thesis
    by (simp add: GetIncidents_def)
qed

text \<open>
  C2. Let a request \<open>rq\<close> be answered with a response whose status code is 400 or more.
  Whichever of \<open>doRequest\<close>, \<open>CreateIncident\<close>, \<open>GetIncidents\<close> and \<open>UpdateIncident\<close> executed
  \<open>rq\<close> returns nil with the error whose message ends in the status code in decimal, and
  executing \<open>rq\<close> is all it did: the body of the response is not read, so it cannot have
  been parsed, and the result is the same whatever the body holds.
\<close>

theorem status_from_400_is_an_error:
  assumes "Do env rq = Inr resp" and "400 \<le> StatusCode resp"
  shows "(Sent rq \<in> set (snd (doRequest env cl req)) \<longrightarrow>
            doRequest env cl req =
              ((None, Some (errorString (errorMsg (StatusCode resp)))), [Sent rq]))
       \<and> (Sent rq \<in> set (snd (CreateIncident env cl inc)) \<longrightarrow>
            CreateIncident env cl inc =
              ((None, Some (errorString (errorMsg (StatusCode resp)))), [Sent rq]))
       \<and> (Sent rq \<in> set (snd (GetIncidents env cl params)) \<longrightarrow>
            GetIncidents env cl params =
              ((None, Some (errorString (errorMsg (StatusCode resp)))), [Sent rq]))
       \<and> (Sent rq \<in> set (snd (UpdateIncident env cl inc)) \<longrightarrow>
            UpdateIncident env cl inc =
              ((None, Some (errorString (errorMsg (StatusCode resp)))), [Sent rq]))
       \<and> (\<exists>ds. errorMsg (StatusCode resp) = ''ServiceNow returned the HTTP error code: '' @ ds
                 \<and> int (readDecimal ds) = StatusCode resp)"
proof -
  have "0 \<le> StatusCode resp" using assms(2) by simp
  then show ?thesis
    using doRequest_from_400[OF assms] CreateIncident_from_400[OF assms]
      GetIncidents_from_400[OF assms] UpdateIncident_from_400[OF assms]
      errorMsg_carries_code[of "StatusCode resp"]
    by blast
qed

lemmas run_defs =
  CreateIncident_def UpdateIncident_def GetIncidents_def create_def update_def get_def
  doRequest_def NewRequest_def Marshal_def incidentFields_def zeroIncident_def
  encodeInterface_def encodeString_def encodeNumber_def Let_def mockServer_def acme_def
  tableAPI_def rawQueryOf_def Header_Set_def acmeRequest_def bareRequest_def zeroBody_def zeroMembers_def
  serverError_def Query_def createdBody_def requestHeader_def sysIDBody_def

lemmas decode_defs =
  UnmarshalIncidentResponse_def UnmarshalIncidentsResponse_def Unmarshal_def decodeStruct_def
  incidentResponseMember_def incidentsResponseMember_def resultMember_def decodeIncident_def
  decodeIncidents_def incidentMember_def lookupField_def storeString_def storeNumber_def
  storeInterface_def bytesOf_def typeError_def

lemma errorMsg_500: "errorMsg 500 = ''ServiceNow returned the HTTP error code: 500''"
  by (simp add: errorMsg_def itoa_def decimal.simps digit_def)

lemma CreateIncident_500_trace:
  "snd (CreateIncident (mockServer 500 serverError) acme zeroIncident) =
     [Sent (acmeRequest ''POST'' ''https://acme.service-now.com/api/now/v2/table/incident'' []
              (Some zeroBody))]"
  by (simp add: run_defs)

theorem status_from_400_is_an_error_witness:
  "Do (mockServer 500 serverError)
      (acmeRequest ''POST'' ''https://acme.service-now.com/api/now/v2/table/incident'' []
         (Some zeroBody)) = Inr \<lparr>StatusCode = 500, ReadAll = serverError\<rparr>
   \<and> (400 :: int) \<le> 500
   \<and> CreateIncident (mockServer 500 serverError) acme zeroIncident =
       ((None, Some (errorString ''ServiceNow returned the HTTP error code: 500'')),
        [Sent (acmeRequest ''POST'' ''https://acme.service-now.com/api/now/v2/table/incident'' []
                 (Some zeroBody))])"
proof -
  let ?env = "mockServer 500 serverError"
  let ?rq = "acmeRequest ''POST'' ''https://acme.service-now.com/api/now/v2/table/incident'' []
               (Some zeroBody)"
  let ?resp = "\<lparr>StatusCode = 500, ReadAll = serverError\<rparr>"
  have h1: "Do ?env ?rq = Inr ?resp" by (simp add: mockServer_def)
  have h2: "400 \<le> StatusCode ?resp" by simp
  have h3: "Sent ?rq \<in> set (snd (CreateIncident ?env acme zeroIncident))"
    by (simp add: CreateIncident_500_trace)
  from status_from_400_is_an_error[OF h1 h2, of acme undefined zeroIncident undefined] h3
  have "CreateIncident ?env acme zeroIncident =
          ((None, Some (errorString (errorMsg 500))), [Sent ?rq])"
    by simp
  with h1 show ?thesis by (simp add: errorMsg_500)
qed

lemma doRequest_below_400_closes_once:
  assumes "Do env rq = Inr resp" "StatusCode resp < 400"
    and "Sent rq \<in> set (snd (doRequest env cl req))"
  shows "count_list (snd (doRequest env cl req)) BodyClosed = 1"
  using assms doRequest_sent[OF assms(3)]
  by (auto simp: doRequest_def Let_def split: sum.splits)

lemma doRequest_from_400_never_closes:
  assumes "Do env rq = Inr resp" "400 \<le> StatusCode resp"
    and "Sent rq \<in> set (snd (doRequest env cl req))"
  shows "count_list (snd (doRequest env cl req)) BodyClosed = 0"
  using doRequest_from_400[OF assms] by simp

text \<open>
  C3. The body of a response is closed once when the status code is below 400, whether the
  read succeeds or fails (\<open>doRequest_below_400_closes_once\<close>). From 400 on it is not closed
  at all: the source returns the error before the deferred \<^verbatim>\<open>Close\<close> is registered. Here a
  server answers 500 to a request of the client \<open>acme\<close>: the request is executed and
  nothing else happens, the body is closed zero times.
\<close>

theorem doRequest_500_leaves_body_open:
  "snd (doRequest (mockServer 500 serverError) acme
          (bareRequest ''POST'' ''https://acme.service-now.com/api/now/v2/table/incident''
             (Some zeroBody))) =
     [Sent (acmeRequest ''POST'' ''https://acme.service-now.com/api/now/v2/table/incident'' []
              (Some zeroBody))]
   \<and> count_list
         (snd (doRequest (mockServer 500 serverError) acme
            (bareRequest ''POST'' ''https://acme.service-now.com/api/now/v2/table/incident''
               (Some zeroBody)))) BodyClosed = 0"
  by (simp add: run_defs)

section \<open>The outcome of an operation\<close>

lemma doRequest_fresh:
  "Header req = [] \<Longrightarrow>
   snd (doRequest env cl req) = [Sent (req\<lparr>Header := requestHeader cl\<rparr>)] \<or>
   snd (doRequest env cl req) = [Sent (req\<lparr>Header := requestHeader cl\<rparr>), BodyRead, BodyClosed]"
  by (auto simp: doRequest_def Let_def Header_Set_def requestHeader_def split: sum.splits)

lemma doRequest_outcome:
  "(\<exists>e. fst (doRequest env cl req) = (None, Some e)) \<or>
   (\<exists>rq resp data. doRequest env cl req = ((Some data, None), [Sent rq, BodyRead, BodyClosed])
      \<and> Method rq = Method req \<and> URL rq = URL req \<and> Body rq = Body req
      \<and> Do env rq = Inr resp \<and> StatusCode resp < 400 \<and> ReadAll resp = Inr data)"
  by (auto simp: doRequest_def Let_def split: sum.splits)

lemma create_outcome:
  "(\<exists>e. fst (create env cl t b) = (None, Some e)) \<or>
   (\<exists>rq resp data. create env cl t b = ((Some data, None), [Sent rq, BodyRead, BodyClosed])
      \<and> Method rq = ''POST'' \<and> URL rq = tableAPI (baseURL cl) t \<and> Body rq = Some b
      \<and> Do env rq = Inr resp \<and> StatusCode resp < 400 \<and> ReadAll resp = Inr data)"
proof (cases "NewRequest env ''POST'' (tableAPI (baseURL cl) t) (Some b)")
  case (Inl e)
  then show ?thesis by (simp add: create_def)
next
  case (Inr req)
  then have req: "Method req = ''POST''" "URL req = tableAPI (baseURL cl) t" "Body req = Some b"
    by (auto simp: NewRequest_def split: option.splits)
  from Inr have "create env cl t b = doRequest env cl req" by (simp add: create_def)
  then show ?thesis using doRequest_outcome[of env cl req] req by simp
qed

lemma update_outcome:
  "(\<exists>e. fst (update env cl t b s) = (None, Some e)) \<or>
   (\<exists>rq resp data. update env cl t b s = ((Some data, None), [Sent rq, BodyRead, BodyClosed])
      \<and> Method rq = ''PUT'' \<and> URL rq = tableAPI (baseURL cl) t @ ''/'' @ s \<and> Body rq = Some b
      \<and> Do env rq = Inr resp \<and> StatusCode resp < 400 \<and> ReadAll resp = Inr data)"
proof (cases "NewRequest env ''PUT'' (tableAPI (baseURL cl) t @ ''/'' @ s) (Some b)")
  case (Inl e)
  then show ?thesis by (simp add: update_def)
next
  case (Inr req)
  then have req: "Method req = ''PUT''" "URL req = tableAPI (baseURL cl) t @ ''/'' @ s"
      "Body req = Some b"
    by (auto simp: NewRequest_def split: option.splits)
  from Inr have "update env cl t b s = doRequest env cl req" by (simp add: update_def)
  then show ?thesis using doRequest_outcome[of env cl req] req by simp
qed

lemma get_outcome:
  "(\<exists>e. fst (get env cl t ps) = (None, Some e)) \<or>
   (\<exists>rq resp data. get env cl t ps = ((Some data, None), [Sent rq, BodyRead, BodyClosed])
      \<and> Method rq = ''GET'' \<and> URL rq = tableAPI (baseURL cl) t \<and> Body rq = None
      \<and> Do env rq = Inr resp \<and> StatusCode resp < 400 \<and> ReadAll resp = Inr data)"
proof (cases "NewRequest env ''GET'' (tableAPI (baseURL cl) t) None")
  case (Inl e)
  then show ?thesis by (simp add: get_def)
next
  case (Inr req)
  then have req: "Method req = ''GET''" "URL req = tableAPI (baseURL cl) t" "Body req = None"
    by (auto simp: NewRequest_def split: option.splits)
  define req' where
    "req' = req\<lparr>RawQuery :=
       Values_Encode (foldl (\<lambda>q (key, val). Values_Add q key val) (Query env req) ps)\<rparr>"
  from Inr have "get env cl t ps = doRequest env cl req'"
    by (simp add: get_def req'_def Let_def)
  then show ?thesis using doRequest_outcome[of env cl req'] req by (simp add: req'_def)
qed

lemma CreateIncident_outcome:
  "(\<exists>e. fst (CreateIncident env cl inc) = (None, Some e)) \<or>
   (\<exists>i body rq resp data.
      CreateIncident env cl inc = ((Some i, None), [Sent rq, BodyRead, BodyClosed])
      \<and> Marshal inc = Inr body
      \<and> Method rq = ''POST'' \<and> URL rq = tableAPI (baseURL cl) ''incident''
      \<and> Body rq = Some body
      \<and> Do env rq = Inr resp \<and> StatusCode resp < 400 \<and> ReadAll resp = Inr data
      \<and> UnmarshalIncidentResponse (float64 env) data \<lparr>Result = zeroIncident\<rparr> =
            (\<lparr>Result = i\<rparr>, None))"
proof (cases "Marshal inc")
  case (Inl e)
  then show ?thesis by (simp add: CreateIncident_def)
next
  case (Inr body)
  from create_outcome[of env cl "''incident''" body] show ?thesis
  proof
    assume "\<exists>e. fst (create env cl ''incident'' body) = (None, Some e)"
    then show ?thesis using Inr by (auto simp: CreateIncident_def split: prod.splits)
  next
    assume "\<exists>rq resp data.
      create env cl ''incident'' body = ((Some data, None), [Sent rq, BodyRead, BodyClosed])
      \<and> Method rq = ''POST'' \<and> URL rq = tableAPI (baseURL cl) ''incident''
      \<and> Body rq = Some body
      \<and> Do env rq = Inr resp \<and> StatusCode resp < 400 \<and> ReadAll resp = Inr data"
    then obtain rq resp data
      where c: "create env cl ''incident'' body =
                  ((Some data, None), [Sent rq, BodyRead, BodyClosed])"
        and r: "Method rq = ''POST''" "URL rq = tableAPI (baseURL cl) ''incident''"
          "Body rq = Some body" "Do env rq = Inr resp" "StatusCode resp < 400"
          "ReadAll resp = Inr data"
      by blast
    obtain r err
      where u: "UnmarshalIncidentResponse (float64 env) data \<lparr>Result = zeroIncident\<rparr> = (r, err)"
      by (cases "UnmarshalIncidentResponse (float64 env) data \<lparr>Result = zeroIncident\<rparr>")
    show ?thesis
    proof (cases err)
      case None
      have "r = \<lparr>Result = Result r\<rparr>" by simp
      then have "UnmarshalIncidentResponse (float64 env) data \<lparr>Result = zeroIncident\<rparr> =
                   (\<lparr>Result = Result r\<rparr>, None)"
        using u None by simp
      moreover have "CreateIncident env cl inc =
                       ((Some (Result r), None), [Sent rq, BodyRead, BodyClosed])"
        using Inr c u None by (simp add: CreateIncident_def bytesOf_def)
      ultimately show ?thesis using Inr r by blast
    next
      case (Some e)
      then show ?thesis using Inr c u by (simp add: CreateIncident_def bytesOf_def)
    qed
  qed
qed

lemma UpdateIncident_outcome:
  "(\<exists>e. fst (UpdateIncident env cl inc) = (None, Some e)) \<or>
   (\<exists>i body rq resp data.
      UpdateIncident env cl inc = ((Some i, None), [Sent rq, BodyRead, BodyClosed])
      \<and> Marshal inc = Inr body
      \<and> Method rq = ''PUT'' \<and> URL rq = tableAPI (baseURL cl) ''incident'' @ ''/'' @ SysID inc
      \<and> Body rq = Some body
      \<and> Do env rq = Inr resp \<and> StatusCode resp < 400 \<and> ReadAll resp = Inr data
      \<and> UnmarshalIncidentResponse (float64 env) data \<lparr>Result = zeroIncident\<rparr> =
            (\<lparr>Result = i\<rparr>, None))"
proof (cases "Marshal inc")
  case (Inl e)
  then show ?thesis by (simp add: UpdateIncident_def)
next
  case (Inr body)
  from update_outcome[of env cl "''incident''" body "SysID inc"] show ?thesis
  proof
    assume "\<exists>e. fst (update env cl ''incident'' body (SysID inc)) = (None, Some e)"
    then show ?thesis using Inr by (auto simp: UpdateIncident_def split: prod.splits)
  next
    assume "\<exists>rq resp data.
      update env cl ''incident'' body (SysID inc) =
        ((Some data, None), [Sent rq, BodyRead, BodyClosed])
      \<and> Method rq = ''PUT'' \<and> URL rq = tableAPI (baseURL cl) ''incident'' @ ''/'' @ SysID inc
      \<and> Body rq = Some body
      \<and> Do env rq = Inr resp \<and> StatusCode resp < 400 \<and> ReadAll resp = Inr data"
    then obtain rq resp data
      where c: "update env cl ''incident'' body (SysID inc) =
                  ((Some data, None), [Sent rq, BodyRead, BodyClosed])"
        and r: "Method rq = ''PUT''"
          "URL rq = tableAPI (baseURL cl) ''incident'' @ ''/'' @ SysID inc"
          "Body rq = Some body" "Do env rq = Inr resp" "StatusCode resp < 400"
          "ReadAll resp = Inr data"
      by blast
    obtain r err
      where u: "UnmarshalIncidentResponse (float64 env) data \<lparr>Result = zeroIncident\<rparr> = (r, err)"
      by (cases "UnmarshalIncidentResponse (float64 env) data \<lparr>Result = zeroIncident\<rparr>")
    show ?thesis
    proof (cases err)
      case None
      have "r = \<lparr>Result = Result r\<rparr>" by simp
      then have "UnmarshalIncidentResponse (float64 env) data \<lparr>Result = zeroIncident\<rparr> =
                   (\<lparr>Result = Result r\<rparr>, None)"
        using u None by simp
      moreover have "UpdateIncident env cl inc =
                       ((Some (Result r), None), [Sent rq, BodyRead, BodyClosed])"
        using Inr c u None by (simp add: UpdateIncident_def bytesOf_def)
      ultimately show ?thesis using Inr r by blast
    next
      case (Some e)
      then show ?thesis using Inr c u by (simp add: UpdateIncident_def bytesOf_def)
    qed
  qed
qed

lemma GetIncidents_outcome:
  "(\<exists>e. fst (GetIncidents env cl ps) = (None, Some e)) \<or>
   (\<exists>is rq resp data.
      GetIncidents env cl ps = ((is, None), [Sent rq, BodyRead, BodyClosed])
      \<and> Method rq = ''GET'' \<and> URL rq = tableAPI (baseURL cl) ''incident'' \<and> Body rq = None
      \<and> Do env rq = Inr resp \<and> StatusCode resp < 400 \<and> ReadAll resp = Inr data
      \<and> UnmarshalIncidentsResponse (float64 env) data \<lparr>Results = None\<rparr> =
            (\<lparr>Results = is\<rparr>, None))"
proof -
  from get_outcome[of env cl "''incident''" ps] show ?thesis
  proof
    assume "\<exists>e. fst (get env cl ''incident'' ps) = (None, Some e)"
    then show ?thesis by (auto simp: GetIncidents_def split: prod.splits)
  next
    assume "\<exists>rq resp data.
      get env cl ''incident'' ps = ((Some data, None), [Sent rq, BodyRead, BodyClosed])
      \<and> Method rq = ''GET'' \<and> URL rq = tableAPI (baseURL cl) ''incident'' \<and> Body rq = None
      \<and> Do env rq = Inr resp \<and> StatusCode resp < 400 \<and> ReadAll resp = Inr data"
    then obtain rq resp data
      where c: "get env cl ''incident'' ps =
                  ((Some data, None), [Sent rq, BodyRead, BodyClosed])"
        and r: "Method rq = ''GET''" "URL rq = tableAPI (baseURL cl) ''incident''"
          "Body rq = None" "Do env rq = Inr resp" "StatusCode resp < 400"
          "ReadAll resp = Inr data"
      by blast
    obtain r err
      where u: "UnmarshalIncidentsResponse (float64 env) data \<lparr>Results = None\<rparr> = (r, err)"
      by (cases "UnmarshalIncidentsResponse (float64 env) data \<lparr>Results = None\<rparr>")
    show ?thesis
    proof (cases err)
      case None
      have "r = \<lparr>Results = Results r\<rparr>" by simp
      then have "UnmarshalIncidentsResponse (float64 env) data \<lparr>Results = None\<rparr> =
                   (\<lparr>Results = Results r\<rparr>, None)"
        using u None by simp
      moreover have "GetIncidents env cl ps =
                       ((Results r, None), [Sent rq, BodyRead, BodyClosed])"
        using c u None by (simp add: GetIncidents_def bytesOf_def)
      ultimately show ?thesis using r by blast
    next
      case (Some e)
      then show ?thesis using c u by (simp add: GetIncidents_def bytesOf_def)
    qed
  qed
qed

text \<open>
  C6. Each of the three operations ends in one of two ways. Either it returns nil and an
  error. Or it returns no error and the value the decoder stored: then the incident was
  encoded (for create and update), the request was executed, the status code was below 400,
  the body was read to its end and \<^verbatim>\<open>json.Unmarshal\<close> returned no error for it; the pointer
  of create and update is not nil, and the slice of \<open>GetIncidents\<close> is the one decoded, which
  is nil when the response holds no list. No call returns a value and an error.
\<close>

theorem output_or_error:
  "((\<exists>e. fst (CreateIncident env cl inc) = (None, Some e)) \<or>
    (\<exists>i body rq resp data.
       CreateIncident env cl inc = ((Some i, None), [Sent rq, BodyRead, BodyClosed])
       \<and> Marshal inc = Inr body
       \<and> Method rq = ''POST'' \<and> URL rq = tableAPI (baseURL cl) ''incident''
       \<and> Body rq = Some body
       \<and> Do env rq = Inr resp \<and> StatusCode resp < 400 \<and> ReadAll resp = Inr data
       \<and> UnmarshalIncidentResponse (float64 env) data \<lparr>Result = zeroIncident\<rparr> =
             (\<lparr>Result = i\<rparr>, None)))
   \<and> ((\<exists>e. fst (GetIncidents env cl params) = (None, Some e)) \<or>
      (\<exists>is rq resp data.
         GetIncidents env cl params = ((is, None), [Sent rq, BodyRead, BodyClosed])
         \<and> Method rq = ''GET'' \<and> URL rq = tableAPI (baseURL cl) ''incident''
         \<and> Body rq = None
         \<and> Do env rq = Inr resp \<and> StatusCode resp < 400 \<and> ReadAll resp = Inr data
         \<and> UnmarshalIncidentsResponse (float64 env) data \<lparr>Results = None\<rparr> =
               (\<lparr>Results = is\<rparr>, None)))
   \<and> ((\<exists>e. fst (UpdateIncident env cl inc) = (None, Some e)) \<or>
      (\<exists>i body rq resp data.
         UpdateIncident env cl inc = ((Some i, None), [Sent rq, BodyRead, BodyClosed])
         \<and> Marshal inc = Inr body
         \<and> Method rq = ''PUT''
         \<and> URL rq = tableAPI (baseURL cl) ''incident'' @ ''/'' @ SysID inc
         \<and> Body rq = Some body
         \<and> Do env rq = Inr resp \<and> StatusCode resp < 400 \<and> ReadAll resp = Inr data
         \<and> UnmarshalIncidentResponse (float64 env) data \<lparr>Result = zeroIncident\<rparr> =
               (\<lparr>Result = i\<rparr>, None)))
   \<and> (\<forall>i e. fst (CreateIncident env cl inc) \<noteq> (Some i, Some e))
   \<and> (\<forall>is e. fst (GetIncidents env cl params) \<noteq> (Some is, Some e))
   \<and> (\<forall>i e. fst (UpdateIncident env cl inc) \<noteq> (Some i, Some e))"
proof -
  have c: "\<forall>i e. fst (CreateIncident env cl inc) \<noteq> (Some i, Some e)"
    using CreateIncident_outcome[of env cl inc] by auto
  have g: "\<forall>is e. fst (GetIncidents env cl params) \<noteq> (Some is, Some e)"
    using GetIncidents_outcome[of env cl params] by auto
  have u: "\<forall>i e. fst (UpdateIncident env cl inc) \<noteq> (Some i, Some e)"
    using UpdateIncident_outcome[of env cl inc] by auto
  show ?thesis
    using CreateIncident_outcome[of env cl inc] GetIncidents_outcome[of env cl params]
      UpdateIncident_outcome[of env cl inc] c g u
    by blast
qed

theorem output_or_error_witness:
  "CreateIncident (mockServer 201 createdBody) acme zeroIncident =
     ((Some (zeroIncident\<lparr>Number := ''INC0001'', SysID := ''abc123''\<rparr>), None),
      [Sent (acmeRequest ''POST'' ''https://acme.service-now.com/api/now/v2/table/incident'' []
               (Some zeroBody)), BodyRead, BodyClosed])
   \<and> fst (CreateIncident (mockServer 500 serverError) acme zeroIncident) =
       (None, Some (errorString ''ServiceNow returned the HTTP error code: 500''))
   \<and> (\<forall>i e. fst (CreateIncident (mockServer 201 createdBody) acme zeroIncident) \<noteq>
                 (Some i, Some e))"
proof -
  have "CreateIncident (mockServer 201 createdBody) acme zeroIncident =
     ((Some (zeroIncident\<lparr>Number := ''INC0001'', SysID := ''abc123''\<rparr>), None),
      [Sent (acmeRequest ''POST'' ''https://acme.service-now.com/api/now/v2/table/incident'' []
               (Some zeroBody)), BodyRead, BodyClosed])"
    by (simp add: run_defs decode_defs)
  moreover have "fst (CreateIncident (mockServer 500 serverError) acme zeroIncident) =
       (None, Some (errorString ''ServiceNow returned the HTTP error code: 500''))"
    by (simp add: run_defs errorMsg_500)
  moreover have "\<forall>i e. fst (CreateIncident (mockServer 201 createdBody) acme zeroIncident) \<noteq>
                 (Some i, Some e)"
    using output_or_error[of "mockServer 201 createdBody" acme zeroIncident "[]"] by blast
  ultimately show ?thesis by blast
qed

section \<open>The request of an update\<close>

lemma update_sends:
  assumes "parseError env (tableAPI (baseURL cl) t @ ''/'' @ s) = None"
  shows "\<exists>rest. snd (update env cl t b s) =
           Sent \<lparr> Method = ''PUT'', URL = tableAPI (baseURL cl) t @ ''/'' @ s,
                  RawQuery = rawQueryOf (tableAPI (baseURL cl) t @ ''/'' @ s),
                  Header = requestHeader cl, Body = Some b \<rparr> # rest
           \<and> (rest = [] \<or> rest = [BodyRead, BodyClosed])"
  using assms
    doRequest_fresh[of "\<lparr> Method = ''PUT'', URL = tableAPI (baseURL cl) t @ ''/'' @ s,
                  RawQuery = rawQueryOf (tableAPI (baseURL cl) t @ ''/'' @ s),
                  Header = [], Body = Some b \<rparr>" env cl]
  by (auto simp: update_def NewRequest_def Let_def)


lemma Marshal_whatever_SysID:
  "(\<exists>e. Marshal (inc\<lparr>SysID := s\<rparr>) = Inl e) \<longleftrightarrow> (\<exists>e. Marshal inc = Inl e)"
  by (simp add: Marshal_def incidentFields_def encodeString_def split: sum.splits option.splits)



text \<open>
  C9. Nothing looks at the \<^verbatim>\<open>SysID\<close> before the request leaves. An incident whose \<^verbatim>\<open>SysID\<close>
  is empty, once encoded (and no \<^verbatim>\<open>SysID\<close> makes the encoding fail), goes out in a \<^verbatim>\<open>PUT\<close> to
  the URL that ends in \<^verbatim>\<open>/incident/\<close>, with nothing after the last slash, provided
  \<^verbatim>\<open>http.NewRequest\<close> accepts that URL; the operation does not return before it.
\<close>

theorem UpdateIncident_empty_SysID:
  assumes "SysID inc = []" and "Marshal inc = Inr body"
    and "parseError env (baseURL cl @ ''/api/now/v2/table/incident/'') = None"
  shows "(\<exists>rest. UpdateIncident env cl inc =
            (fst (UpdateIncident env cl inc),
             Sent \<lparr> Method = ''PUT'', URL = baseURL cl @ ''/api/now/v2/table/incident/'',
                    RawQuery = rawQueryOf (baseURL cl @ ''/api/now/v2/table/incident/''),
                    Header = requestHeader cl, Body = Some body \<rparr> # rest)
            \<and> (rest = [] \<or> rest = [BodyRead, BodyClosed]))
       \<and> (\<forall>s. \<exists>b. Marshal (inc\<lparr>SysID := s\<rparr>) = Inr b)"
proof
  from update_sends[of env cl "''incident''" "SysID inc" body] assms
  obtain rest where "snd (UpdateIncident env cl inc) =
             Sent \<lparr> Method = ''PUT'', URL = baseURL cl @ ''/api/now/v2/table/incident/'',
                    RawQuery = rawQueryOf (baseURL cl @ ''/api/now/v2/table/incident/''),
                    Header = requestHeader cl, Body = Some body \<rparr> # rest"
    and "rest = [] \<or> rest = [BodyRead, BodyClosed]"
    by (auto simp: UpdateIncident_trace tableAPI_def)
  then show "\<exists>rest. UpdateIncident env cl inc =
            (fst (UpdateIncident env cl inc),
             Sent \<lparr> Method = ''PUT'', URL = baseURL cl @ ''/api/now/v2/table/incident/'',
                    RawQuery = rawQueryOf (baseURL cl @ ''/api/now/v2/table/incident/''),
                    Header = requestHeader cl, Body = Some body \<rparr> # rest)
            \<and> (rest = [] \<or> rest = [BodyRead, BodyClosed])"
    by (metis prod.collapse)
next
  show "\<forall>s. \<exists>b. Marshal (inc\<lparr>SysID := s\<rparr>) = Inr b"
  proof
    fix s
    have "\<not> (\<exists>e. Marshal inc = Inl e)" using assms(2) by simp
    then have "\<not> (\<exists>e. Marshal (inc\<lparr>SysID := s\<rparr>) = Inl e)"
      using Marshal_whatever_SysID[where inc = inc and s = s] by blast
    then show "\<exists>b. Marshal (inc\<lparr>SysID := s\<rparr>) = Inr b"
      by (cases "Marshal (inc\<lparr>SysID := s\<rparr>)") auto
  qed
qed

theorem UpdateIncident_empty_SysID_witness:
  "SysID zeroIncident = []
   \<and> Marshal zeroIncident = Inr zeroBody
   \<and> parseError (mockServer 200 createdBody)
         (baseURL acme @ ''/api/now/v2/table/incident/'') = None
   \<and> snd (UpdateIncident (mockServer 200 createdBody) acme zeroIncident) =
       [Sent (acmeRequest ''PUT'' ''https://acme.service-now.com/api/now/v2/table/incident/'' []
                (Some zeroBody)), BodyRead, BodyClosed]"
proof -
  let ?env = "mockServer 200 createdBody"
  have h1: "SysID zeroIncident = []" by (simp add: zeroIncident_def)
  have h2: "Marshal zeroIncident = Inr zeroBody" by (simp add: run_defs)
  have h3: "parseError ?env (baseURL acme @ ''/api/now/v2/table/incident/'') = None"
    by (simp add: mockServer_def)
  from UpdateIncident_empty_SysID[OF h1 h2 h3]
  obtain rest where "snd (UpdateIncident ?env acme zeroIncident) =
             Sent \<lparr> Method = ''PUT'', URL = baseURL acme @ ''/api/now/v2/table/incident/'',
                    RawQuery = rawQueryOf (baseURL acme @ ''/api/now/v2/table/incident/''),
                    Header = requestHeader acme, Body = Some zeroBody \<rparr> # rest"
    by (metis snd_conv)
  moreover have "snd (UpdateIncident ?env acme zeroIncident) =
       [Sent (acmeRequest ''PUT'' ''https://acme.service-now.com/api/now/v2/table/incident/'' []
                (Some zeroBody)), BodyRead, BodyClosed]"
    by (simp add: run_defs decode_defs)
  ultimately show ?thesis using h1 h2 h3 by simp
qed

section \<open>Optional fields\<close>















section \<open>Numeric fields\<close>









section \<open>Responses without the expected result\<close>

lemma doRequest_answered:
  assumes "Do env rq = Inr resp" "StatusCode resp < 400"
    and "Sent rq \<in> set (snd (doRequest env cl req))"
  shows "fst (doRequest env cl req) =
           (case ReadAll resp of Inl e \<Rightarrow> (None, Some e) | Inr data \<Rightarrow> (Some data, None))"
  using assms doRequest_sent[OF assms(3)]
  by (simp add: doRequest_def Let_def split: sum.splits)

lemma create_answered:
  assumes "Do env rq = Inr resp" "StatusCode resp < 400"
    and "Sent rq \<in> set (snd (create env cl t b))"
  shows "fst (create env cl t b) =
           (case ReadAll resp of Inl e \<Rightarrow> (None, Some e) | Inr data \<Rightarrow> (Some data, None))"
  using assms
  by (auto simp: create_def Let_def split: sum.splits dest: doRequest_answered)

lemma update_answered:
  assumes "Do env rq = Inr resp" "StatusCode resp < 400"
    and "Sent rq \<in> set (snd (update env cl t b s))"
  shows "fst (update env cl t b s) =
           (case ReadAll resp of Inl e \<Rightarrow> (None, Some e) | Inr data \<Rightarrow> (Some data, None))"
  using assms
  by (auto simp: update_def Let_def split: sum.splits dest: doRequest_answered)

lemma get_answered:
  assumes "Do env rq = Inr resp" "StatusCode resp < 400"
    and "Sent rq \<in> set (snd (get env cl t ps))"
  shows "fst (get env cl t ps) =
           (case ReadAll resp of Inl e \<Rightarrow> (None, Some e) | Inr data \<Rightarrow> (Some data, None))"
  using assms
  by (auto simp: get_def Let_def split: sum.splits dest: doRequest_answered)

lemma CreateIncident_answered:
  assumes "Do env rq = Inr resp" "StatusCode resp < 400" "ReadAll resp = Inr data"
    and "Sent rq \<in> set (snd (CreateIncident env cl inc))"
  shows "fst (CreateIncident env cl inc) =
           (case UnmarshalIncidentResponse (float64 env) data \<lparr>Result = zeroIncident\<rparr> of
              (r, None) \<Rightarrow> (Some (Result r), None)
            | (r, Some e) \<Rightarrow> (None, Some e))"
proof (cases "Marshal inc")
  case (Inl e)
  then show ?thesis using assms(4) by (simp add: CreateIncident_trace)
next
  case (Inr b)
  then have "Sent rq \<in> set (snd (create env cl ''incident'' b))"
    using assms(4) by (simp add: CreateIncident_trace)
  from create_answered[OF assms(1,2) this] assms(3)
  have "fst (create env cl ''incident'' b) = (Some data, None)" by simp
  then show ?thesis using Inr
    by (cases "create env cl ''incident'' b")
       (auto simp: CreateIncident_def bytesOf_def split: prod.splits option.splits)
qed

lemma UpdateIncident_answered:
  assumes "Do env rq = Inr resp" "StatusCode resp < 400" "ReadAll resp = Inr data"
    and "Sent rq \<in> set (snd (UpdateIncident env cl inc))"
  shows "fst (UpdateIncident env cl inc) =
           (case UnmarshalIncidentResponse (float64 env) data \<lparr>Result = zeroIncident\<rparr> of
              (r, None) \<Rightarrow> (Some (Result r), None)
            | (r, Some e) \<Rightarrow> (None, Some e))"
proof (cases "Marshal inc")
  case (Inl e)
  then show ?thesis using assms(4) by (simp add: UpdateIncident_trace)
next
  case (Inr b)
  then have "Sent rq \<in> set (snd (update env cl ''incident'' b (SysID inc)))"
    using assms(4) by (simp add: UpdateIncident_trace)
  from update_answered[OF assms(1,2) this] assms(3)
  have "fst (update env cl ''incident'' b (SysID inc)) = (Some data, None)" by simp
  then show ?thesis using Inr
    by (cases "update env cl ''incident'' b (SysID inc)")
       (auto simp: UpdateIncident_def bytesOf_def split: prod.splits option.splits)
qed

lemma GetIncidents_answered:
  assumes "Do env rq = Inr resp" "StatusCode resp < 400" "ReadAll resp = Inr data"
    and "Sent rq \<in> set (snd (GetIncidents env cl ps))"
  shows "fst (GetIncidents env cl ps) =
           (case UnmarshalIncidentsResponse (float64 env) data \<lparr>Results = None\<rparr> of
              (r, None) \<Rightarrow> (Results r, None)
            | (r, Some e) \<Rightarrow> (None, Some e))"
proof -
  have "Sent rq \<in> set (snd (get env cl ''incident'' ps))"
    using assms(4) by (simp add: GetIncidents_trace)
  from get_answered[OF assms(1,2) this] assms(3)
  have "fst (get env cl ''incident'' ps) = (Some data, None)" by simp
  then show ?thesis
    by (cases "get env cl ''incident'' ps")
       (auto simp: GetIncidents_def bytesOf_def split: prod.splits option.splits)
qed

lemma object_names_no_field:
  "\<forall>m \<in> set ms. lookupField (fst m) = None \<Longrightarrow>
   object (incidentMember fl) ms i es = Done i es"
  by (induction ms arbitrary: i es) (auto simp: incidentMember_def)

lemma decodeIncident_names_no_field:
  "namesNoField j \<Longrightarrow> decodeIncident fl j i = Done i []"
  by (cases j)
     (simp_all add: namesNoField_def decodeIncident_def decodeStruct_def object_names_no_field)

lemma object_blank:
  "\<forall>m \<in> set ms. resultMember (fst m) \<longrightarrow> namesNoField (snd m) \<Longrightarrow>
   object (incidentResponseMember fl) ms r es = Done r es"
  by (induction ms arbitrary: r es)
     (auto simp: incidentResponseMember_def decodeIncident_names_no_field)

lemma Unmarshal_blank:
  "blankResult j \<Longrightarrow> UnmarshalIncidentResponse fl (JSONText j) r = (r, None)"
  by (cases j)
     (simp_all add: blankResult_def UnmarshalIncidentResponse_def Unmarshal_def decodeStruct_def
        object_blank)

lemma objects_noResult:
  "\<forall>m \<in> set ms. resultMember (fst m) \<longrightarrow> snd m = JNull \<Longrightarrow> Results r = None \<Longrightarrow>
   object (incidentsResponseMember fl) ms r es = Done r es"
  by (induction ms arbitrary: r es)
     (auto simp: incidentsResponseMember_def decodeIncidents_def)

lemma Unmarshals_noResult:
  "noResult j \<Longrightarrow>
   UnmarshalIncidentsResponse fl (JSONText j) \<lparr>Results = None\<rparr> = (\<lparr>Results = None\<rparr>, None)"
  by (cases j)
     (simp_all add: noResult_def UnmarshalIncidentsResponse_def Unmarshal_def decodeStruct_def
        objects_noResult)

lemma Unmarshal_scalar:
  "scalar v \<Longrightarrow>
   snd (UnmarshalIncidentResponse fl (JSONText (JObject [(''result'', v)])) r) =
     Some (UnmarshalTypeError (valueName v) ''main.Incident'')"
  by (cases v)
     (simp_all add: scalar_def UnmarshalIncidentResponse_def Unmarshal_def decodeStruct_def
        incidentResponseMember_def resultMember_def decodeIncident_def typeError_def)

lemma Unmarshals_scalar:
  "scalar v \<Longrightarrow>
   snd (UnmarshalIncidentsResponse fl (JSONText (JObject [(''result'', v)])) r) =
     Some (UnmarshalTypeError (valueName v) ''[]main.Incident'')"
  by (cases v)
     (simp_all add: scalar_def UnmarshalIncidentsResponse_def Unmarshal_def decodeStruct_def
        incidentsResponseMember_def resultMember_def decodeIncidents_def typeError_def)

text \<open>
  C10, as the code has it. Let a request be answered, with a status code below 400, by a
  body that is JSON. When the body is \<^verbatim>\<open>null\<close>, or an object in which every \<^verbatim>\<open>result\<close> is
  \<^verbatim>\<open>null\<close> or an object that names no field of an incident (so also when there is no
  \<^verbatim>\<open>result\<close>), \<open>CreateIncident\<close> and \<open>UpdateIncident\<close> return a pointer to the zero incident
  and no error. When the body is \<^verbatim>\<open>null\<close>, or an object in which every \<^verbatim>\<open>result\<close> is
  \<^verbatim>\<open>null\<close>, \<open>GetIncidents\<close> returns the nil slice and no error. When the \<^verbatim>\<open>result\<close> is a
  bool, a number or a string, the three return nil and the type error of the decoder.
\<close>

theorem missing_result_is_zero_value:
  assumes "Do env rq = Inr resp" and "StatusCode resp < 400"
    and "ReadAll resp = Inr (JSONText j)"
  shows "(blankResult j \<and> Sent rq \<in> set (snd (CreateIncident env cl inc)) \<longrightarrow>
            fst (CreateIncident env cl inc) = (Some zeroIncident, None))
       \<and> (blankResult j \<and> Sent rq \<in> set (snd (UpdateIncident env cl inc)) \<longrightarrow>
            fst (UpdateIncident env cl inc) = (Some zeroIncident, None))
       \<and> (noResult j \<and> Sent rq \<in> set (snd (GetIncidents env cl params)) \<longrightarrow>
            fst (GetIncidents env cl params) = (None, None))
       \<and> (scalar v \<and> j = JObject [(''result'', v)]
             \<and> Sent rq \<in> set (snd (CreateIncident env cl inc)) \<longrightarrow>
            fst (CreateIncident env cl inc) =
              (None, Some (UnmarshalTypeError (valueName v) ''main.Incident'')))
       \<and> (scalar v \<and> j = JObject [(''result'', v)]
             \<and> Sent rq \<in> set (snd (UpdateIncident env cl inc)) \<longrightarrow>
            fst (UpdateIncident env cl inc) =
              (None, Some (UnmarshalTypeError (valueName v) ''main.Incident'')))
       \<and> (scalar v \<and> j = JObject [(''result'', v)]
             \<and> Sent rq \<in> set (snd (GetIncidents env cl params)) \<longrightarrow>
            fst (GetIncidents env cl params) =
              (None, Some (UnmarshalTypeError (valueName v) ''[]main.Incident'')))"
proof (intro conjI impI)
  assume "blankResult j \<and> Sent rq \<in> set (snd (CreateIncident env cl inc))"
  then show "fst (CreateIncident env cl inc) = (Some zeroIncident, None)"
    using CreateIncident_answered[OF assms, of cl inc] by (simp add: Unmarshal_blank)
next
  assume "blankResult j \<and> Sent rq \<in> set (snd (UpdateIncident env cl inc))"
  then show "fst (UpdateIncident env cl inc) = (Some zeroIncident, None)"
    using UpdateIncident_answered[OF assms, of cl inc] by (simp add: Unmarshal_blank)
next
  assume "noResult j \<and> Sent rq \<in> set (snd (GetIncidents env cl params))"
  then show "fst (GetIncidents env cl params) = (None, None)"
    using GetIncidents_answered[OF assms, of cl params] by (simp add: Unmarshals_noResult)
next
  assume a: "scalar v \<and> j = JObject [(''result'', v)]
             \<and> Sent rq \<in> set (snd (CreateIncident env cl inc))"
  then have "snd (UnmarshalIncidentResponse (float64 env) (JSONText j)
                    \<lparr>Result = zeroIncident\<rparr>) =
               Some (UnmarshalTypeError (valueName v) ''main.Incident'')"
    by (simp add: Unmarshal_scalar)
  then show "fst (CreateIncident env cl inc) =
               (None, Some (UnmarshalTypeError (valueName v) ''main.Incident''))"
    using CreateIncident_answered[OF assms, of cl inc] a
    by (cases "UnmarshalIncidentResponse (float64 env) (JSONText j) \<lparr>Result = zeroIncident\<rparr>")
       simp
next
  assume a: "scalar v \<and> j = JObject [(''result'', v)]
             \<and> Sent rq \<in> set (snd (UpdateIncident env cl inc))"
  then have "snd (UnmarshalIncidentResponse (float64 env) (JSONText j)
                    \<lparr>Result = zeroIncident\<rparr>) =
               Some (UnmarshalTypeError (valueName v) ''main.Incident'')"
    by (simp add: Unmarshal_scalar)
  then show "fst (UpdateIncident env cl inc) =
               (None, Some (UnmarshalTypeError (valueName v) ''main.Incident''))"
    using UpdateIncident_answered[OF assms, of cl inc] a
    by (cases "UnmarshalIncidentResponse (float64 env) (JSONText j) \<lparr>Result = zeroIncident\<rparr>")
       simp
next
  assume a: "scalar v \<and> j = JObject [(''result'', v)]
             \<and> Sent rq \<in> set (snd (GetIncidents env cl params))"
  then have "snd (UnmarshalIncidentsResponse (float64 env) (JSONText j)
                    \<lparr>Results = None\<rparr>) =
               Some (UnmarshalTypeError (valueName v) ''[]main.Incident'')"
    by (simp add: Unmarshals_scalar)
  then show "fst (GetIncidents env cl params) =
               (None, Some (UnmarshalTypeError (valueName v) ''[]main.Incident''))"
    using GetIncidents_answered[OF assms, of cl params] a
    by (cases "UnmarshalIncidentsResponse (float64 env) (JSONText j) \<lparr>Results = None\<rparr>")
       simp
qed

lemma GetIncidents_200_trace:
  "snd (GetIncidents (mockServer 200 emptyObject) acme []) =
     [Sent (acmeRequest ''GET'' ''https://acme.service-now.com/api/now/v2/table/incident'' []
              None), BodyRead, BodyClosed]"
  by code_simp

lemma CreateIncident_200_trace:
  "snd (CreateIncident (mockServer 200 emptyObject) acme zeroIncident) =
     [Sent (acmeRequest ''POST'' ''https://acme.service-now.com/api/now/v2/table/incident'' []
              (Some zeroBody)), BodyRead, BodyClosed]"
  by code_simp

theorem missing_result_is_zero_value_witness:
  "Do (mockServer 200 emptyObject)
      (acmeRequest ''GET'' ''https://acme.service-now.com/api/now/v2/table/incident'' [] None) =
     Inr \<lparr>StatusCode = 200, ReadAll = Inr (JSONText (JObject []))\<rparr>
   \<and> (200 :: int) < 400
   \<and> noResult (JObject []) \<and> blankResult (JObject [])
   \<and> fst (GetIncidents (mockServer 200 emptyObject) acme []) = (None, None)
   \<and> fst (CreateIncident (mockServer 200 emptyObject) acme zeroIncident) =
       (Some zeroIncident, None)"
proof -
  let ?env = "mockServer 200 emptyObject"
  let ?get = "acmeRequest ''GET'' ''https://acme.service-now.com/api/now/v2/table/incident'' []
                None"
  let ?post = "acmeRequest ''POST'' ''https://acme.service-now.com/api/now/v2/table/incident'' []
                 (Some zeroBody)"
  let ?resp = "\<lparr>StatusCode = 200, ReadAll = Inr (JSONText (JObject []))\<rparr>"
  have g1: "Do ?env ?get = Inr ?resp" by (simp add: mockServer_def emptyObject_def)
  have p1: "Do ?env ?post = Inr ?resp" by (simp add: mockServer_def emptyObject_def)
  have h2: "StatusCode ?resp < 400" by simp
  have h3: "ReadAll ?resp = Inr (JSONText (JObject []))" by simp
  have n: "noResult (JObject [])" by (simp add: noResult_def)
  have b: "blankResult (JObject [])" by (simp add: blankResult_def)
  have gs: "Sent ?get \<in> set (snd (GetIncidents ?env acme []))"
    by (simp add: GetIncidents_200_trace)
  have ps: "Sent ?post \<in> set (snd (CreateIncident ?env acme zeroIncident))"
    by (simp add: CreateIncident_200_trace)
  from missing_result_is_zero_value[OF g1 h2 h3, of acme undefined "[]" undefined] n gs
  have "fst (GetIncidents ?env acme []) = (None, None)" by blast
  moreover
  from missing_result_is_zero_value[OF p1 h2 h3, of acme zeroIncident undefined undefined] b ps
  have "fst (CreateIncident ?env acme zeroIncident) = (Some zeroIncident, None)" by blast
  ultimately show ?thesis using g1 n b by simp
qed

text \<open>
  C10, as it is claimed, fails: \<^verbatim>\<open>{"result": 5}\<close> is JSON, and a server that answers with
  it makes \<open>CreateIncident\<close>, \<open>UpdateIncident\<close> and \<open>GetIncidents\<close> return nil and a type error,
  where the claim has a zero incident, or a nil slice, and no error.
\<close>

theorem result_of_another_type_fails:
  "fst (CreateIncident (mockServer 200 numberResult) acme zeroIncident) =
     (None, Some (UnmarshalTypeError ''number'' ''main.Incident''))
   \<and> fst (UpdateIncident (mockServer 200 numberResult) acme zeroIncident) =
       (None, Some (UnmarshalTypeError ''number'' ''main.Incident''))
   \<and> fst (GetIncidents (mockServer 200 numberResult) acme []) =
       (None, Some (UnmarshalTypeError ''number'' ''[]main.Incident''))"
  by code_simp

section \<open>The query of a list request\<close>

lemma upperhex_cases: "(n::nat) < 16 \<Longrightarrow> n \<in> {0,1,2,3,4,5,6,7,8,9,10,11,12,13,14,15}"
  by simp arith

lemma unhex_upperhex: "n < 16 \<Longrightarrow> unhex (upperhex n) = Some n"
  by (drule upperhex_cases) (auto simp: unhex_def upperhex_def)

lemma upperhex_neq: "n < 16 \<Longrightarrow> upperhex n \<noteq> CHR ''&'' \<and> upperhex n \<noteq> CHR ''=''"
  by (drule upperhex_cases) (auto simp: upperhex_def)

lemma of_char_lt: "of_char (c::char) < (256::nat)"
  by (metis of_char_mod_256 mod_less_divisor zero_less_numeral)


lemma unreserved_not_special:
  "unreserved c \<Longrightarrow> c \<noteq> CHR ''%'' \<and> c \<noteq> CHR ''+'' \<and> c \<noteq> CHR ''&'' \<and> c \<noteq> CHR ''=''"
  by (auto simp: unreserved_def)

lemma escapeByte_free: "CHR ''&'' \<notin> set (escapeByte c) \<and> CHR ''='' \<notin> set (escapeByte c)"
proof -
  have lt: "of_char c div 16 < (16::nat)" "of_char c mod 16 < (16::nat)"
    using of_char_lt[of c] by presburger+
  show ?thesis
    using upperhex_neq[OF lt(1)] upperhex_neq[OF lt(2)] unreserved_not_special[of c]
    by (auto simp: escapeByte_def)
qed

lemma QueryEscape_free: "CHR ''&'' \<notin> set (QueryEscape s) \<and> CHR ''='' \<notin> set (QueryEscape s)"
  using escapeByte_free by (auto simp: QueryEscape_def)

lemma QueryUnescape_escapeByte:
  "QueryUnescape (escapeByte c @ t) = map_option ((#) c) (QueryUnescape t)"
proof -
  have lt: "of_char c div 16 < (16::nat)" "of_char c mod 16 < (16::nat)"
    using of_char_lt[of c] by presburger+
  have rt: "char_of ((16::nat) * (of_char c div 16) + of_char c mod 16) = c"
    by simp
  show ?thesis
  proof (cases "unreserved c")
    case True
    then show ?thesis using unreserved_not_special[of c] by (simp add: escapeByte_def)
  next
    case False
    show ?thesis
    proof (cases "c = CHR '' ''")
      case True
      then show ?thesis using False by (simp add: escapeByte_def)
    next
      case sp: False
      then show ?thesis using False lt rt
        by (simp add: escapeByte_def unhex_upperhex)
    qed
  qed
qed

lemma QueryUnescape_QueryEscape: "QueryUnescape (QueryEscape s) = Some s"
  by (induction s) (simp_all add: QueryEscape_def QueryUnescape_escapeByte)

lemma parsePair_pair: "parsePair (pair key val) = Some (key, val)"
proof -
  have k: "\<forall>c \<in> set (QueryEscape key). c \<noteq> CHR ''=''"
    using QueryEscape_free[of key] by auto
  have "takeWhile (\<lambda>c. c \<noteq> CHR ''='') (pair key val) = QueryEscape key"
    using k by (simp add: pair_def)
  moreover have "dropWhile (\<lambda>c. c \<noteq> CHR ''='') (pair key val) = CHR ''='' # QueryEscape val"
    using k by (simp add: pair_def)
  ultimately show ?thesis by (simp add: parsePair_def QueryUnescape_QueryEscape)
qed

lemma pair_free: "CHR ''&'' \<notin> set (pair key val) \<and> pair key val \<noteq> []"
  using QueryEscape_free by (auto simp: pair_def)

lemma splitAmp_nonempty: "splitAmp s \<noteq> []"
  by (induction s) (auto split: list.splits)

lemma splitAmp_free: "CHR ''&'' \<notin> set x \<Longrightarrow> splitAmp (x @ CHR ''&'' # s) = x # splitAmp s"
  by (induction x) (auto split: list.splits simp: splitAmp_nonempty)

lemma splitAmp_single: "CHR ''&'' \<notin> set x \<Longrightarrow> splitAmp x = [x]"
  by (induction x) (auto split: list.splits)

lemma splitAmp_join:
  "xs \<noteq> [] \<Longrightarrow> \<forall>x \<in> set xs. CHR ''&'' \<notin> set x \<Longrightarrow> splitAmp (join ''&'' xs) = xs"
proof (induction xs rule: induct_list012)
  case 1
  then show ?case by simp
next
  case (2 x)
  then show ?case by (simp add: splitAmp_single)
next
  case (3 x y xs)
  then have "splitAmp (join ''&'' (y # xs)) = y # xs" by simp
  moreover have "CHR ''&'' \<notin> set x" using 3 by simp
  ultimately show ?case by (simp add: splitAmp_free)
qed

lemma queryPairs_join:
  assumes "\<forall>x \<in> set xs. CHR ''&'' \<notin> set x \<and> x \<noteq> []"
  shows "queryPairs (join ''&'' xs) = xs"
proof (cases xs)
  case Nil
  then show ?thesis by (simp add: queryPairs_def)
next
  case (Cons a list)
  then have "splitAmp (join ''&'' xs) = xs" using assms splitAmp_join[of xs] by auto
  moreover have "filter (\<lambda>p. p \<noteq> []) xs = xs" using assms by (simp add: filter_id_conv)
  ultimately show ?thesis by (simp add: queryPairs_def)
qed


lemma Values_Add_fresh: "key \<notin> fst ` set v \<Longrightarrow> Values_Add v key val = v @ [(key, [val])]"
proof -
  assume "key \<notin> fst ` set v"
  then have "map_of v key = None" by (simp add: map_of_eq_None_iff)
  then show ?thesis by (simp add: Values_Add_def)
qed

lemma Add_all:
  "distinct (map fst v @ map fst ps) \<Longrightarrow>
   foldl (\<lambda>q (key, val). Values_Add q key val) v ps = v @ singles ps"
proof (induction ps arbitrary: v)
  case Nil
  then show ?case by (simp add: singles_def)
next
  case (Cons p ps)
  obtain k x where p: "p = (k, x)" by (cases p)
  have fresh: "k \<notin> fst ` set v" using Cons.prems p by auto
  have d: "distinct (map fst (v @ [(k, [x])]) @ map fst ps)" using Cons.prems p by auto
  show ?case using Cons.IH[OF d] p fresh
    by (simp add: Values_Add_fresh singles_def)
qed

lemma insort_map: "insort (f x) (map f ys) = map f (insort_key f x ys)"
  by (induction ys) simp_all

lemma sort_map_key: "sort (map f xs) = map f (sort_key f xs)"
  by (induction xs) (simp_all add: insort_map)

lemma map_of_singles:
  assumes "distinct (map fst ps)" "(k, x) \<in> set ps"
  shows "map_of (singles ps) k = Some [x]"
proof -
  have "distinct (map fst (singles ps))" using assms(1) by (simp add: singles_def comp_def)
  moreover have "(k, [x]) \<in> set (singles ps)" using assms(2) by (force simp: singles_def)
  ultimately show ?thesis by simp
qed

lemma Encode_singles:
  assumes "distinct (map fst ps)"
  shows "Values_Encode (singles ps) = join ''&'' (map (\<lambda>p. pair (fst p) (snd p)) (sort_key fst ps))"
proof -
  have keys: "sort (map fst (singles ps)) = map fst (sort_key fst ps)"
    by (simp add: singles_def comp_def sort_map_key)
  have "map (\<lambda>k. map (pair k) (case map_of (singles ps) k of None \<Rightarrow> [] | Some vs \<Rightarrow> vs))
          (map fst (sort_key fst ps)) =
        map (\<lambda>p. [pair (fst p) (snd p)]) (sort_key fst ps)"
  proof -
    have "\<And>p. p \<in> set (sort_key fst ps) \<Longrightarrow>
            map (pair (fst p)) (case map_of (singles ps) (fst p) of None \<Rightarrow> [] | Some vs \<Rightarrow> vs) =
            [pair (fst p) (snd p)]"
    proof -
      fix p assume "p \<in> set (sort_key fst ps)"
      then have "(fst p, snd p) \<in> set ps" by simp
      from map_of_singles[OF assms this] show "map (pair (fst p))
            (case map_of (singles ps) (fst p) of None \<Rightarrow> [] | Some vs \<Rightarrow> vs) =
            [pair (fst p) (snd p)]" by simp
    qed
    then show ?thesis by (simp add: comp_def)
  qed
  then show ?thesis
    by (simp add: Values_Encode_def keys concat_map_singleton del: map_map)
qed


lemma count_list_distinct: "distinct xs \<Longrightarrow> x \<in> set xs \<Longrightarrow> count_list xs x = 1"
  by (induction xs) (auto simp: count_list_0_iff)

lemma pair_inj:
  assumes "pair k v = pair k' v'"
  shows "k = k' \<and> v = v'"
proof -
  have "Some (k, v) = parsePair (pair k v)" by (simp only: parsePair_pair)
  also have "\<dots> = parsePair (pair k' v')" by (simp only: assms)
  also have "\<dots> = Some (k', v')" by (simp only: parsePair_pair)
  finally show ?thesis by simp
qed

lemma get_sends:
  assumes "distinct (map fst params)"
    and "parseError env (tableAPI (baseURL cl) table) = None"
    and "rawQueryOf (tableAPI (baseURL cl) table) = []"
  shows "\<exists>rest. snd (get env cl table params) =
           Sent \<lparr> Method = ''GET'', URL = tableAPI (baseURL cl) table,
                  RawQuery = join ''&'' (map (\<lambda>p. pair (fst p) (snd p)) (sort_key fst params)),
                  Header = requestHeader cl, Body = None \<rparr> # rest
           \<and> (rest = [] \<or> rest = [BodyRead, BodyClosed])"
proof -
  let ?req = "\<lparr> Method = ''GET'', URL = tableAPI (baseURL cl) table,
                RawQuery = [], Header = [], Body = None \<rparr>"
  have n: "NewRequest env ''GET'' (tableAPI (baseURL cl) table) None = Inr ?req"
    using assms(2,3) by (simp add: NewRequest_def)
  have q: "foldl (\<lambda>q (key, val). Values_Add q key val) (Query env ?req) params = singles params"
    using Add_all[of "[]" params] assms(1) by (simp add: Query_def)
  have "get env cl table params =
          doRequest env cl (?req\<lparr>RawQuery :=
             join ''&'' (map (\<lambda>p. pair (fst p) (snd p)) (sort_key fst params))\<rparr>)"
    using n q Encode_singles[OF assms(1)] by (simp add: get_def Let_def)
  then show ?thesis
    using doRequest_fresh[of "?req\<lparr>RawQuery :=
             join ''&'' (map (\<lambda>p. pair (fst p) (snd p)) (sort_key fst params))\<rparr>" env cl]
    by auto
qed

text \<open>
  C8. The parameters are a map, so no key occurs twice. When \<^verbatim>\<open>http.NewRequest\<close> accepts the
  URL of the table and that URL has no query of its own, \<open>get\<close> executes one request, a
  \<^verbatim>\<open>GET\<close> to that URL, whatever the order in which the loop met the parameters. The pieces
  of its query are the parameters, sorted by key, each escaped as \<^verbatim>\<open>key=value\<close>; read back
  they are the parameters; each parameter is there once, and there is nothing else.
  \<open>GetIncidents\<close> does what \<open>get\<close> does for the table \<^verbatim>\<open>incident\<close>.
\<close>

theorem get_query_holds_each_pair_once:
  assumes "distinct (map fst params)"
    and "parseError env (baseURL cl @ ''/api/now/v2/table/'' @ table) = None"
    and "rawQueryOf (baseURL cl @ ''/api/now/v2/table/'' @ table) = []"
  shows "\<exists>rq rest. snd (get env cl table params) = Sent rq # rest
           \<and> (rest = [] \<or> rest = [BodyRead, BodyClosed])
           \<and> Method rq = ''GET'' \<and> URL rq = baseURL cl @ ''/api/now/v2/table/'' @ table
           \<and> Header rq = requestHeader cl \<and> Body rq = None
           \<and> queryPairs (RawQuery rq) = map (\<lambda>p. pair (fst p) (snd p)) (sort_key fst params)
           \<and> map parsePair (queryPairs (RawQuery rq)) = map Some (sort_key fst params)
           \<and> (\<forall>p \<in> set params. count_list (queryPairs (RawQuery rq)) (pair (fst p) (snd p)) = 1)
           \<and> length (queryPairs (RawQuery rq)) = length params
           \<and> snd (GetIncidents env cl params) = snd (get env cl ''incident'' params)"
proof -
  let ?pieces = "map (\<lambda>p. pair (fst p) (snd p)) (sort_key fst params)"
  let ?rq = "\<lparr> Method = ''GET'', URL = tableAPI (baseURL cl) table,
               RawQuery = join ''&'' ?pieces, Header = requestHeader cl, Body = None \<rparr>"
  from get_sends[of params env cl table] assms
  obtain rest where tr: "snd (get env cl table params) = Sent ?rq # rest"
    and rest: "rest = [] \<or> rest = [BodyRead, BodyClosed]"
    by (auto simp: tableAPI_def)
  have free: "\<forall>x \<in> set ?pieces. CHR ''&'' \<notin> set x \<and> x \<noteq> []"
    using pair_free by auto
  have qp: "queryPairs (join ''&'' ?pieces) = ?pieces"
    using queryPairs_join[OF free] .
  have pp: "map parsePair ?pieces = map Some (sort_key fst params)"
    by (simp add: parsePair_pair comp_def)
  have dp: "distinct params" using assms(1) by (rule distinct_map[THEN iffD1, THEN conjunct1])
  have inj: "inj_on (\<lambda>p. pair (fst p) (snd p)) (set (sort_key fst params))"
    by (auto simp: inj_on_def dest!: pair_inj)
  have d: "distinct ?pieces" using dp inj by (simp add: distinct_map)
  have cnt: "\<forall>p \<in> set params. count_list ?pieces (pair (fst p) (snd p)) = 1"
  proof
    fix p assume "p \<in> set params"
    then have "pair (fst p) (snd p) \<in> set ?pieces" by force
    then show "count_list ?pieces (pair (fst p) (snd p)) = 1"
      using d by (rule count_list_distinct[rotated])
  qed
  have len: "length ?pieces = length params" by simp
  have g: "snd (GetIncidents env cl params) = snd (get env cl ''incident'' params)"
    by (rule GetIncidents_trace)
  show ?thesis
    apply (rule exI[of _ ?rq])
    apply (rule exI[of _ rest])
    using tr rest qp pp cnt len g by (simp add: tableAPI_def)
qed

theorem get_query_holds_each_pair_once_witness:
  "distinct (map fst [(''priority'', ''1''), (''active'', ''true'')])
   \<and> parseError (mockServer 200 emptyList)
         (baseURL acme @ ''/api/now/v2/table/'' @ ''incident'') = None
   \<and> rawQueryOf (baseURL acme @ ''/api/now/v2/table/'' @ ''incident'') = []
   \<and> snd (GetIncidents (mockServer 200 emptyList) acme
             [(''priority'', ''1''), (''active'', ''true'')]) =
       [Sent (acmeRequest ''GET'' ''https://acme.service-now.com/api/now/v2/table/incident''
                ''active=true&priority=1'' None), BodyRead, BodyClosed]
   \<and> queryPairs ''active=true&priority=1'' = [''active=true'', ''priority=1'']
   \<and> map parsePair (queryPairs ''active=true&priority=1'') =
       [Some (''active'', ''true''), Some (''priority'', ''1'')]"
proof -
  let ?ps = "[(''priority'', ''1''), (''active'', ''true'')]"
  let ?env = "mockServer 200 emptyList"
  have h1: "distinct (map fst ?ps)" by simp
  have h2: "parseError ?env (baseURL acme @ ''/api/now/v2/table/'' @ ''incident'') = None"
    by (simp add: mockServer_def)
  have h3: "rawQueryOf (baseURL acme @ ''/api/now/v2/table/'' @ ''incident'') = []"
    by code_simp
  have t: "snd (GetIncidents ?env acme ?ps) =
       [Sent (acmeRequest ''GET'' ''https://acme.service-now.com/api/now/v2/table/incident''
                ''active=true&priority=1'' None), BodyRead, BodyClosed]"
    by code_simp
  from get_query_holds_each_pair_once[OF h1 h2 h3]
  obtain rq rest where "snd (get ?env acme ''incident'' ?ps) = Sent rq # rest"
    and "map parsePair (queryPairs (RawQuery rq)) = map Some (sort_key fst ?ps)"
    and "snd (GetIncidents ?env acme ?ps) = snd (get ?env acme ''incident'' ?ps)"
    by blast
  then have "map parsePair (queryPairs (RawQuery rq)) = map Some (sort_key fst ?ps)"
    and "rq = acmeRequest ''GET'' ''https://acme.service-now.com/api/now/v2/table/incident''
                ''active=true&priority=1'' None"
    using t by simp_all
  then have "map parsePair (queryPairs ''active=true&priority=1'') = map Some (sort_key fst ?ps)"
    by (simp add: acmeRequest_def)
  moreover have "sort_key fst ?ps = [(''active'', ''true''), (''priority'', ''1'')]"
    by code_simp
  moreover have "queryPairs ''active=true&priority=1'' = [''active=true'', ''priority=1'']"
    by code_simp
  ultimately show ?thesis using h1 h2 h3 t by simp
qed

end
